theory Spec2Isabelle
  imports Complex_Main "HOL-Library.Word"
begin

section \<open>The TemboPlus Go SDK: data model\<close>

text \<open>
  The package \<^verbatim>\<open>temboplus\<close> is a thin client of a JSON-over-HTTPS payment gateway.
  This theory embeds its records (\<^verbatim>\<open>models.go\<close>), its constants, its validation
  rules, its transport adapter \<^verbatim>\<open>makeRequest\<close> and the operations built on it.

  Go strings are byte sequences; they are modelled as \<^typ>\<open>string\<close> (a list of 8-bit
  characters). Field names of different Go structs that coincide are told apart by a
  short prefix, since record fields are global names here.
\<close>

subsection \<open>float64\<close>

text \<open>
  A Go \<^verbatim>\<open>float64\<close> is a finite number, an infinity or a NaN. The finite values are
  modelled by the reals they denote (a superset of the representable ones: no theorem
  below depends on rounding). Comparisons follow IEEE 754 as Go implements it: every
  ordered comparison with a NaN is false.
\<close>

datatype float64 = NaN | PosInf | NegInf | Finite real

text \<open>The Go expression \<^verbatim>\<open>x <= 0\<close>.\<close>

fun le_zero :: "float64 \<Rightarrow> bool" where
  "le_zero NaN = False"
| "le_zero PosInf = False"
| "le_zero NegInf = True"
| "le_zero (Finite r) = (r \<le> 0)"

text \<open>The Go expression \<^verbatim>\<open>x > 0\<close>: "strictly greater than zero".\<close>

fun gt_zero :: "float64 \<Rightarrow> bool" where
  "gt_zero NaN = False"
| "gt_zero PosInf = True"
| "gt_zero NegInf = False"
| "gt_zero (Finite r) = (0 < r)"

subsection \<open>Records of models.go\<close>

record MobileMoneyCollectionRequest =
  MSISDN :: string
  Channel :: string
  Amount :: float64
  Narration :: string
  TransactionRef :: string
  TransactionDate :: string
  CallbackURL :: string

text \<open>\<^verbatim>\<open>MobileMoneyCollectionResponse\<close>; fields prefixed \<open>r_\<close>.\<close>

record MobileMoneyCollectionResponse =
  r_StatusCode :: string
  r_TransactionRef :: string
  r_TransactionID :: string

text \<open>\<^verbatim>\<open>WebhookPayload\<close>; fields prefixed \<open>wh_\<close>.\<close>

record WebhookPayload =
  wh_StatusCode :: string
  wh_TransactionRef :: string
  wh_TransactionID :: string

text \<open>\<^verbatim>\<open>WalletToMobileRequest\<close>; fields prefixed \<open>w_\<close>.\<close>

record WalletToMobileRequest =
  w_CountryCode :: string
  w_AccountNo :: string
  w_ServiceCode :: string
  w_Amount :: float64
  w_MSISDN :: string
  w_Narration :: string
  w_CurrencyCode :: string
  w_RecipientNames :: string
  w_TransactionRef :: string
  w_TransactionDate :: string
  w_CallbackURL :: string

text \<open>\<^verbatim>\<open>PaymentStatusRequest\<close>; fields prefixed \<open>s_\<close>.\<close>

record PaymentStatusRequest =
  s_TransactionRef :: string
  s_TransactionID :: string

subsection \<open>Client and configuration\<close>

text \<open>
  \<^verbatim>\<open>time.Duration\<close> is an \<^verbatim>\<open>int64\<close> count of nanoseconds. The \<^verbatim>\<open>http.Client\<close> of the
  Go struct is represented by the one field the package sets, its timeout.
\<close>

type_synonym Duration = "64 word"

definition Second :: Duration where
  "Second = 1000000000"

record ClientConfig =
  Environmen :: string
  AccountID :: string
  SecretKey :: string
  Timeout :: Duration

record Client =
  baseURL :: string
  accountID :: string
  secretKey :: string
  httpClient_Timeout :: Duration

definition Sandbox :: string where
  "Sandbox = ''sandbox''"

definition Production :: string where
  "Production = ''production''"

definition DefaultBaseURLSandbox :: string where
  "DefaultBaseURLSandbox = ''https://sandbox.temboplus.com''"

definition DefaultBaseURLProduction :: string where
  "DefaultBaseURLProduction = ''https://api.temboplus.com''"

definition NewClient :: "ClientConfig \<Rightarrow> Client" where
  "NewClient config =
     (let baseUrl = (if Environmen config = Production then DefaultBaseURLProduction
                     else DefaultBaseURLSandbox);
          config' = (if Timeout config = 0 then config\<lparr>Timeout := 30 * Second\<rparr> else config)
      in \<lparr>baseURL = baseUrl,
          accountID = AccountID config',
          secretKey = SecretKey config',
          httpClient_Timeout = Timeout config'\<rparr>)"

subsection \<open>Constants\<close>

definition StatusPendingACK :: string where
  "StatusPendingACK = ''PENDING_ACK''"

definition StatusPaymentAccepted :: string where
  "StatusPaymentAccepted = ''PAYMENT_ACCEPTED''"

definition StatusPaymentRejected :: string where
  "StatusPaymentRejected = ''PAYMENT_REJECTED''"

definition StatusGenericError :: string where
  "StatusGenericError = ''GENERIC_ERROR''"

definition ChannelTZTigoC2B :: string where
  "ChannelTZTigoC2B = ''TZ-TIGO-C2B''"

definition ChannelTZHalotelC2B :: string where
  "ChannelTZHalotelC2B = ''TZ-HALOTEL-C2B''"

definition ChannelTZAirtelC2B :: string where
  "ChannelTZAirtelC2B = ''TZ-AIRTEL-C2B''"

definition ServiceTZTigoB2C :: string where
  "ServiceTZTigoB2C = ''TZ-TIGO-B2C''"

definition ServiceTZAirtelB2C :: string where
  "ServiceTZAirtelB2C = ''TZ-AIRTEL-B2C''"

definition ServiceTZBankB2C :: string where
  "ServiceTZBankB2C = ''TZ-BANK-B2C''"

definition EndpointCollection :: string where
  "EndpointCollection = ''/tembo/v1/collection''"

definition EndpointCollectionStatus :: string where
  "EndpointCollectionStatus = ''/tembo/v1/collection/status''"

definition EndpointPaymentWalletToMobile :: string where
  "EndpointPaymentWalletToMobile = ''/tembo/v1/payment/wallet-to-mobile''"

definition EndpointPaymentStatus :: string where
  "EndpointPaymentStatus = ''/tembo/v1/payment/status''"

definition GetSupportedChannels :: "string list" where
  "GetSupportedChannels = [ChannelTZTigoC2B, ChannelTZAirtelC2B, ChannelTZHalotelC2B]"

text \<open>The loop of \<^verbatim>\<open>isValidChannel\<close>: the first equal element returns true.\<close>

fun contains :: "string list \<Rightarrow> string \<Rightarrow> bool" where
  "contains [] x = False"
| "contains (c # cs) x = (if c = x then True else contains cs x)"

definition isValidChannel :: "string \<Rightarrow> bool" where
  "isValidChannel channel = contains GetSupportedChannels channel"

definition GetSupportedServices :: "string list" where
  "GetSupportedServices = [ServiceTZTigoB2C, ServiceTZAirtelB2C, ServiceTZBankB2C]"

definition isValidService :: "string \<Rightarrow> bool" where
  "isValidService service = contains GetSupportedServices service"

section \<open>The standard library the package calls\<close>

text \<open>
  The package decodes and encodes JSON with Go's \<^verbatim>\<open>encoding/json\<close>. That library is
  not part of the repository; the definitions of this section follow its documented
  behaviour (and its source where the documentation is silent), restricted to the
  target types the package uses. Two conversions between decimal text and binary
  floating point, \<^verbatim>\<open>strconv.ParseFloat\<close> and the encoder's number formatting, are not
  modelled: they are parameters of every definition that needs them.
\<close>

subsection \<open>Bytes and UTF-8 (unicode/utf8, unicode/utf16)\<close>

definition byte :: "char \<Rightarrow> nat" where
  "byte c = of_char c"

definition chr :: "nat \<Rightarrow> char" where
  "chr n = char_of n"

definition quote :: char where
  "quote = CHR 0x22"

definition backslash :: char where
  "backslash = CHR 0x5C"

definition RuneError :: nat where
  "RuneError = 0xFFFD"

text \<open>A continuation byte within the bounds \<open>lo\<close> and \<open>hi\<close>.\<close>

definition inrange :: "nat \<Rightarrow> nat \<Rightarrow> char \<Rightarrow> bool" where
  "inrange lo hi c = (lo \<le> byte c \<and> byte c \<le> hi)"

text \<open>
  \<^verbatim>\<open>utf8.DecodeRune\<close>: the rune at the head of the bytes and its width. An invalid or
  truncated encoding (overlong forms, surrogates and values past U+10FFFF included) gives
  \<open>(RuneError, 1)\<close>; no bytes give \<open>(RuneError, 0)\<close>. The masks and shifts of the Go
  source are written as \<open>mod\<close> and multiplication.
\<close>

fun DecodeRune :: "string \<Rightarrow> nat \<times> nat" where
  "DecodeRune [] = (RuneError, 0)"
| "DecodeRune (c0 # p) =
     (let p0 = byte c0;
          lo = (if p0 = 0xE0 then 0xA0 else if p0 = 0xF0 then 0x90 else 0x80);
          hi = (if p0 = 0xED then 0x9F else if p0 = 0xF4 then 0x8F else 0xBF)
      in if p0 < 0x80 then (p0, 1)
         else if p0 < 0xC2 \<or> 0xF4 < p0 then (RuneError, 1)
         else if p0 < 0xE0 then
           (case p of
              c1 # _ \<Rightarrow>
                if inrange lo hi c1 then ((p0 mod 0x20) * 0x40 + byte c1 mod 0x40, 2)
                else (RuneError, 1)
            | _ \<Rightarrow> (RuneError, 1))
         else if p0 < 0xF0 then
           (case p of
              c1 # c2 # _ \<Rightarrow>
                if inrange lo hi c1 \<and> inrange 0x80 0xBF c2
                then ((p0 mod 0x10) * 0x1000 + (byte c1 mod 0x40) * 0x40 + byte c2 mod 0x40, 3)
                else (RuneError, 1)
            | _ \<Rightarrow> (RuneError, 1))
         else
           (case p of
              c1 # c2 # c3 # _ \<Rightarrow>
                if inrange lo hi c1 \<and> inrange 0x80 0xBF c2 \<and> inrange 0x80 0xBF c3
                then ((p0 mod 0x08) * 0x40000 + (byte c1 mod 0x40) * 0x1000
                        + (byte c2 mod 0x40) * 0x40 + byte c3 mod 0x40, 4)
                else (RuneError, 1)
            | _ \<Rightarrow> (RuneError, 1)))"

text \<open>\<^verbatim>\<open>utf8.EncodeRune\<close>; a surrogate or a value past U+10FFFF is written as U+FFFD.\<close>

definition EncodeRune :: "nat \<Rightarrow> string" where
  "EncodeRune r =
     (if r \<le> 0x7F then [chr r]
      else if r \<le> 0x7FF then [chr (0xC0 + r div 0x40), chr (0x80 + r mod 0x40)]
      else if 0x10FFFF < r \<or> (0xD800 \<le> r \<and> r \<le> 0xDFFF) then [CHR 0xEF, CHR 0xBF, CHR 0xBD]
      else if r \<le> 0xFFFF then
        [chr (0xE0 + r div 0x1000), chr (0x80 + (r div 0x40) mod 0x40), chr (0x80 + r mod 0x40)]
      else
        [chr (0xF0 + r div 0x40000), chr (0x80 + (r div 0x1000) mod 0x40),
         chr (0x80 + (r div 0x40) mod 0x40), chr (0x80 + r mod 0x40)])"

text \<open>\<^verbatim>\<open>utf16.IsSurrogate\<close> and \<^verbatim>\<open>utf16.DecodeRune\<close>; the second argument is \<open>None\<close>
  where the Go code passes \<open>-1\<close>.\<close>

definition IsSurrogate :: "nat \<Rightarrow> bool" where
  "IsSurrogate r = (0xD800 \<le> r \<and> r < 0xE000)"

definition utf16_DecodeRune :: "nat \<Rightarrow> nat option \<Rightarrow> nat" where
  "utf16_DecodeRune r1 r2o =
     (case r2o of
        None \<Rightarrow> RuneError
      | Some r2 \<Rightarrow>
          if 0xD800 \<le> r1 \<and> r1 < 0xDC00 \<and> 0xDC00 \<le> r2 \<and> r2 < 0xE000
          then (r1 - 0xD800) * 0x400 + (r2 - 0xDC00) + 0x10000
          else RuneError)"

subsection \<open>The scanner of encoding/json\<close>

definition is_space :: "char \<Rightarrow> bool" where
  "is_space c = (c = CHR '' '' \<or> c = CHR 0x09 \<or> c = CHR 0x0D \<or> c = CHR 0x0A)"

definition is_digit :: "char \<Rightarrow> bool" where
  "is_digit c = (c \<in> set ''0123456789'')"

definition is_hex :: "char \<Rightarrow> bool" where
  "is_hex c = (c \<in> set ''0123456789abcdefABCDEF'')"

definition hexval :: "char \<Rightarrow> nat" where
  "hexval c =
     (if is_digit c then byte c - 0x30
      else if c \<in> set ''abcdef'' then byte c - 0x61 + 10
      else byte c - 0x41 + 10)"

text \<open>
  The body of a string literal, after its opening quote: the raw bytes up to the closing
  quote, and what follows it. The scanner refuses control characters, an escape other
  than the eight one-letter ones and \<^verbatim>\<open>\uXXXX\<close>, and the end of input.
\<close>

fun scan_string :: "string \<Rightarrow> (string \<times> string) option" where
  "scan_string [] = None"
| "scan_string (c # cs) =
     (if c = quote then Some ([], cs)
      else if c = backslash then
        (case cs of
           [] \<Rightarrow> None
         | e # cs1 \<Rightarrow>
             if e \<in> set ''bfnrt/'' \<or> e = backslash \<or> e = quote then
               map_option (\<lambda>(raw, rest). (c # e # raw, rest)) (scan_string cs1)
             else if e = CHR ''u'' then
               (case cs1 of
                  h1 # h2 # h3 # h4 # cs2 \<Rightarrow>
                    if is_hex h1 \<and> is_hex h2 \<and> is_hex h3 \<and> is_hex h4 then
                      map_option (\<lambda>(raw, rest). (c # e # h1 # h2 # h3 # h4 # raw, rest))
                        (scan_string cs2)
                    else None
                | _ \<Rightarrow> None)
             else None)
      else if byte c < 0x20 then None
      else map_option (\<lambda>(raw, rest). (c # raw, rest)) (scan_string cs))"

text \<open>\<^verbatim>\<open>getu4\<close>: the code unit of a \<^verbatim>\<open>\uXXXX\<close> escape at the head of the bytes.\<close>

fun getu4 :: "string \<Rightarrow> nat option" where
  "getu4 (b # u # h1 # h2 # h3 # h4 # _) =
     (if b = backslash \<and> u = CHR ''u'' \<and> is_hex h1 \<and> is_hex h2 \<and> is_hex h3 \<and> is_hex h4
      then Some (((hexval h1 * 16 + hexval h2) * 16 + hexval h3) * 16 + hexval h4)
      else None)"
| "getu4 _ = None"

text \<open>
  \<^verbatim>\<open>unquoteBytes\<close>, on the raw bytes between the quotes: escapes are replaced, a
  surrogate pair of escapes becomes one rune, a lone surrogate becomes U+FFFD, and every
  byte sequence that is not valid UTF-8 is replaced by U+FFFD one byte at a time.
  \<open>None\<close> is Go's \<^verbatim>\<open>ok = false\<close>.
\<close>

function unquote :: "string \<Rightarrow> string option" where
  "unquote [] = Some []"
| "unquote (c # s) =
     (if c = backslash then
        (case s of
           [] \<Rightarrow> None
         | e # s1 \<Rightarrow>
             if e = CHR ''u'' then
               (case getu4 (c # s) of
                  None \<Rightarrow> None
                | Some rr \<Rightarrow>
                    if IsSurrogate rr then
                      (let dec = utf16_DecodeRune rr (getu4 (drop 4 s1)) in
                       if dec \<noteq> RuneError
                       then map_option ((@) (EncodeRune dec)) (unquote (drop 10 s1))
                       else map_option ((@) (EncodeRune RuneError)) (unquote (drop 4 s1)))
                    else map_option ((@) (EncodeRune rr)) (unquote (drop 4 s1)))
             else if e = quote \<or> e = backslash \<or> e = CHR ''/'' \<or> e = CHR 0x27 then
               map_option ((#) e) (unquote s1)
             else if e = CHR ''b'' then map_option ((#) (CHR 0x08)) (unquote s1)
             else if e = CHR ''f'' then map_option ((#) (CHR 0x0C)) (unquote s1)
             else if e = CHR ''n'' then map_option ((#) (CHR 0x0A)) (unquote s1)
             else if e = CHR ''r'' then map_option ((#) (CHR 0x0D)) (unquote s1)
             else if e = CHR ''t'' then map_option ((#) (CHR 0x09)) (unquote s1)
             else None)
      else if c = quote \<or> byte c < 0x20 then None
      else if byte c < 0x80 then map_option ((#) c) (unquote s)
      else map_option ((@) (EncodeRune (fst (DecodeRune (c # s)))))
             (unquote (drop (snd (DecodeRune (c # s)) - 1) s)))"
  by pat_completeness auto
termination
  by (relation "measure length") auto

text \<open>
  A number literal at the head of the bytes, and what follows it:
  \<^verbatim>\<open>-? (0 | [1-9][0-9]*) (. [0-9]+)? ([eE] [+-]? [0-9]+)?\<close>, the scanner's states
  \<^verbatim>\<open>stateNeg\<close>, \<^verbatim>\<open>state0\<close>, \<^verbatim>\<open>state1\<close>, \<^verbatim>\<open>stateDot\<close>, \<^verbatim>\<open>stateDot0\<close>, \<^verbatim>\<open>stateE\<close>,
  \<^verbatim>\<open>stateESign\<close> and \<^verbatim>\<open>stateE0\<close>.
\<close>

definition scan_int :: "string \<Rightarrow> (string \<times> string) option" where
  "scan_int s =
     (case s of
        [] \<Rightarrow> None
      | c # cs \<Rightarrow>
          if c = CHR ''0'' then Some ([c], cs)
          else if is_digit c then Some (c # takeWhile is_digit cs, dropWhile is_digit cs)
          else None)"

definition scan_frac :: "string \<Rightarrow> (string \<times> string) option" where
  "scan_frac s =
     (case s of
        [] \<Rightarrow> Some ([], s)
      | c # cs \<Rightarrow>
          if c = CHR ''.'' then
            (if takeWhile is_digit cs = [] then None
             else Some (c # takeWhile is_digit cs, dropWhile is_digit cs))
          else Some ([], s))"

definition scan_sign :: "string \<Rightarrow> string \<times> string" where
  "scan_sign s =
     (case s of
        [] \<Rightarrow> ([], s)
      | d # cs \<Rightarrow> if d = CHR ''+'' \<or> d = CHR ''-'' then ([d], cs) else ([], s))"

definition scan_exp :: "string \<Rightarrow> (string \<times> string) option" where
  "scan_exp s =
     (case s of
        [] \<Rightarrow> Some ([], s)
      | c # cs \<Rightarrow>
          if c = CHR ''e'' \<or> c = CHR ''E'' then
            (let (sg, ds) = scan_sign cs in
             if takeWhile is_digit ds = [] then None
             else Some (c # sg @ takeWhile is_digit ds, dropWhile is_digit ds))
          else Some ([], s))"

definition scan_number :: "string \<Rightarrow> (string \<times> string) option" where
  "scan_number s =
     (let (sg, s0) = (case s of
                        [] \<Rightarrow> ([], s)
                      | c # cs \<Rightarrow> if c = CHR ''-'' then ([c], cs) else ([], s))
      in case scan_int s0 of
           None \<Rightarrow> None
         | Some (i, s1) \<Rightarrow>
             (case scan_frac s1 of
                None \<Rightarrow> None
              | Some (f, s2) \<Rightarrow>
                  (case scan_exp s2 of
                     None \<Rightarrow> None
                   | Some (e, s3) \<Rightarrow> Some (sg @ i @ f @ e, s3))))"

text \<open>
  The tokens of a JSON text. A string token holds the unquoted string, a number token
  its literal.
\<close>

datatype token =
  LBrace | RBrace | LBracket | RBracket | Colon | Comma
  | TString string | TNumber string | TNull | TTrue | TFalse

lemma scan_string_shorter:
  "scan_string s = Some (raw, rest) \<Longrightarrow> length rest < length s"
proof (induction "length s" arbitrary: s raw rest rule: less_induct)
  case less
  show ?case
  proof (cases s)
    case Nil
    with less.prems show ?thesis by simp
  next
    case (Cons c cs)
    have IH: "\<And>t raw' rest'. length t < length s \<Longrightarrow> scan_string t = Some (raw', rest') \<Longrightarrow> length rest' < length t"
      using less.hyps by blast
    from less.prems Cons show ?thesis
      by (auto split: if_splits list.splits dest!: IH[rotated])
  qed
qed

lemma scan_int_shorter: "scan_int s = Some (lit, rest) \<Longrightarrow> length rest < length s"
  by (auto simp: scan_int_def less_Suc_eq_le length_dropWhile_le split: list.splits if_splits)

lemma scan_frac_shorter: "scan_frac s = Some (lit, rest) \<Longrightarrow> length rest \<le> length s"
  by (auto simp: scan_frac_def le_SucI length_dropWhile_le split: list.splits if_splits)

lemma scan_sign_shorter: "scan_sign s = (lit, rest) \<Longrightarrow> length rest \<le> length s"
  by (auto simp: scan_sign_def split: list.splits if_splits)

lemma scan_exp_shorter: "scan_exp s = Some (lit, rest) \<Longrightarrow> length rest \<le> length s"
  by (auto simp: scan_exp_def Let_def split: list.splits if_splits prod.splits
      dest!: scan_sign_shorter intro: le_SucI le_trans[OF length_dropWhile_le])

lemma scan_number_shorter:
  "scan_number s = Some (lit, rest) \<Longrightarrow> length rest < length s"
proof -
  assume a: "scan_number s = Some (lit, rest)"
  obtain sg s0 where sg: "(case s of [] \<Rightarrow> ([], s) | c # cs \<Rightarrow> if c = CHR ''-'' then ([c], cs) else ([], s)) = (sg, s0)"
    by fastforce
  then have l0: "length s0 \<le> length s" by (auto split: list.splits if_splits)
  from a sg obtain i s1 f s2 e where
    "scan_int s0 = Some (i, s1)" "scan_frac s1 = Some (f, s2)" "scan_exp s2 = Some (e, rest)"
    by (auto simp: scan_number_def split: option.splits)
  then show ?thesis using l0
    by (auto dest!: scan_int_shorter scan_frac_shorter scan_exp_shorter)
qed

text \<open>The token at the head of the bytes (which do not start with white space).\<close>

definition next_token :: "string \<Rightarrow> (token \<times> string) option" where
  "next_token s =
     (case s of
        [] \<Rightarrow> None
      | c # cs \<Rightarrow>
          if c = CHR ''{'' then Some (LBrace, cs)
          else if c = CHR ''}'' then Some (RBrace, cs)
          else if c = CHR ''['' then Some (LBracket, cs)
          else if c = CHR '']'' then Some (RBracket, cs)
          else if c = CHR '':'' then Some (Colon, cs)
          else if c = CHR '','' then Some (Comma, cs)
          else if c = quote then
            (case scan_string cs of
               None \<Rightarrow> None
             | Some (raw, rest) \<Rightarrow>
                 (case unquote raw of
                    None \<Rightarrow> None
                  | Some str \<Rightarrow> Some (TString str, rest)))
          else if c = CHR ''-'' \<or> is_digit c then
            (case scan_number s of
               None \<Rightarrow> None
             | Some (lit, rest) \<Rightarrow> Some (TNumber lit, rest))
          else if c = CHR ''n'' then
            (if take 3 cs = ''ull'' then Some (TNull, drop 3 cs) else None)
          else if c = CHR ''t'' then
            (if take 3 cs = ''rue'' then Some (TTrue, drop 3 cs) else None)
          else if c = CHR ''f'' then
            (if take 4 cs = ''alse'' then Some (TFalse, drop 4 cs) else None)
          else None)"

lemma next_token_cases:
  assumes "next_token (c # cs) = Some (t, rest)"
  shows "rest = cs \<or> (\<exists>raw. scan_string cs = Some (raw, rest))
         \<or> (\<exists>lit. scan_number (c # cs) = Some (lit, rest)) \<or> rest = drop 3 cs \<or> rest = drop 4 cs"
  using assms unfolding next_token_def list.case
  by (simp split: if_split_asm option.split_asm prod.split_asm)

lemma next_token_shorter:
  "next_token s = Some (t, rest) \<Longrightarrow> length rest < length s"
proof (cases s)
  case Nil
  assume "next_token s = Some (t, rest)"
  with Nil show ?thesis by (simp add: next_token_def)
next
  case (Cons c cs)
  assume "next_token s = Some (t, rest)"
  with Cons have "next_token (c # cs) = Some (t, rest)" by simp
  from next_token_cases[OF this] show ?thesis
    using Cons scan_string_shorter scan_number_shorter by fastforce
qed

text \<open>
  The bytes as tokens, or \<open>None\<close> where the scanner reports a syntax error inside a
  token. White space between tokens is skipped.
\<close>

function lex :: "string \<Rightarrow> token list option" where
  "lex [] = Some []"
| "lex (c # cs) =
     (if is_space c then lex cs
      else (case next_token (c # cs) of
              None \<Rightarrow> None
            | Some (t, rest) \<Rightarrow> map_option ((#) t) (lex rest)))"
  by pat_completeness auto
termination
  by (relation "measure length") (auto dest: next_token_shorter)

subsection \<open>JSON values\<close>

text \<open>
  A syntactically valid JSON text denotes one value. An object keeps its members in the
  order of the text, repeated names included: the decoder visits them in that order.
\<close>

datatype json =
  JNull | JBool bool | JNumber string | JString string
  | JArray "json list" | JObject "(string \<times> json) list"

text \<open>
  The scanner's stack of open arrays and objects (\<^verbatim>\<open>parseState\<close>). A frame holds what
  the container has so far; an object frame also holds the name whose value is awaited.
\<close>

datatype frame = ArrayFrame "json list" | ObjectFrame "(string \<times> json) list" "string option"

text \<open>What the scanner expects next; \<open>EndTop\<close> holds the finished top-level value.\<close>

datatype pmode =
  BeginValue | BeginValueOrEmpty | BeginStringOrEmpty | BeginString
  | ExpectColon | EndValue | EndTop json

definition maxNestingDepth :: nat where
  "maxNestingDepth = 10000"

fun deliver :: "json \<Rightarrow> frame list \<Rightarrow> (pmode \<times> frame list) option" where
  "deliver v [] = Some (EndTop v, [])"
| "deliver v (ArrayFrame es # st) = Some (EndValue, ArrayFrame (es @ [v]) # st)"
| "deliver v (ObjectFrame ms (Some k) # st) =
     Some (EndValue, ObjectFrame (ms @ [(k, v)]) None # st)"
| "deliver v (ObjectFrame ms None # st) = None"

fun begin_value :: "token \<Rightarrow> frame list \<Rightarrow> (pmode \<times> frame list) option" where
  "begin_value (TString s) st = deliver (JString s) st"
| "begin_value (TNumber n) st = deliver (JNumber n) st"
| "begin_value TNull st = deliver JNull st"
| "begin_value TTrue st = deliver (JBool True) st"
| "begin_value TFalse st = deliver (JBool False) st"
| "begin_value LBrace st =
     (if length st < maxNestingDepth then Some (BeginStringOrEmpty, ObjectFrame [] None # st)
      else None)"
| "begin_value LBracket st =
     (if length st < maxNestingDepth then Some (BeginValueOrEmpty, ArrayFrame [] # st)
      else None)"
| "begin_value _ st = None"

fun begin_key :: "token \<Rightarrow> frame list \<Rightarrow> (pmode \<times> frame list) option" where
  "begin_key (TString k) (ObjectFrame ms None # st) = Some (ExpectColon, ObjectFrame ms (Some k) # st)"
| "begin_key _ _ = None"

fun close_array :: "frame list \<Rightarrow> (pmode \<times> frame list) option" where
  "close_array (ArrayFrame es # st) = deliver (JArray es) st"
| "close_array _ = None"

fun close_object :: "frame list \<Rightarrow> (pmode \<times> frame list) option" where
  "close_object (ObjectFrame ms None # st) = deliver (JObject ms) st"
| "close_object _ = None"

fun step :: "pmode \<times> frame list \<Rightarrow> token \<Rightarrow> (pmode \<times> frame list) option" where
  "step (BeginValue, st) t = begin_value t st"
| "step (BeginValueOrEmpty, st) t = (if t = RBracket then close_array st else begin_value t st)"
| "step (BeginStringOrEmpty, st) t = (if t = RBrace then close_object st else begin_key t st)"
| "step (BeginString, st) t = begin_key t st"
| "step (ExpectColon, st) t = (if t = Colon then Some (BeginValue, st) else None)"
| "step (EndValue, st) t =
     (case st of
        [] \<Rightarrow> None
      | ArrayFrame es # _ \<Rightarrow>
          if t = Comma then Some (BeginValue, st)
          else if t = RBracket then close_array st
          else None
      | ObjectFrame ms k # _ \<Rightarrow>
          if t = Comma then Some (BeginString, st)
          else if t = RBrace then close_object st
          else None)"
| "step (EndTop v, st) t = None"

text \<open>At the end of the input the text is valid only if the top-level value is finished.\<close>

fun run :: "pmode \<times> frame list \<Rightarrow> token list \<Rightarrow> json option" where
  "run (m, st) [] = (case m of EndTop v \<Rightarrow> Some v | _ \<Rightarrow> None)"
| "run ps (t # ts) = (case step ps t of None \<Rightarrow> None | Some ps' \<Rightarrow> run ps' ts)"

text \<open>\<^verbatim>\<open>checkValid\<close> and the value the text denotes; \<open>None\<close> is a \<^verbatim>\<open>SyntaxError\<close>.\<close>

definition parse_json :: "string \<Rightarrow> json option" where
  "parse_json data = (case lex data of None \<Rightarrow> None | Some ts \<Rightarrow> run (BeginValue, []) ts)"

subsection \<open>Decoding (json.Unmarshal)\<close>

text \<open>
  \<^verbatim>\<open>json.Unmarshal\<close> fails with a \<^verbatim>\<open>SyntaxError\<close> on a text that is not valid JSON, before
  it stores anything, and with an \<^verbatim>\<open>UnmarshalTypeError\<close> when a value does not fit its
  target. The errors' own fields (offsets, names) are not modelled.
\<close>

datatype json_error = SyntaxError | UnmarshalTypeError

text \<open>
  A number literal as a Go \<^verbatim>\<open>int\<close> (64 bits), the decoder's
  \<^verbatim>\<open>strconv.ParseInt(lit, 10, 64)\<close>: a literal with a fraction or an exponent, or out of
  range, is refused.
\<close>

definition digits_value :: "string \<Rightarrow> nat" where
  "digits_value ds = foldl (\<lambda>n c. 10 * n + (byte c - 0x30)) 0 ds"

definition ParseInt :: "string \<Rightarrow> int option" where
  "ParseInt lit =
     (let (neg, ds) = (case lit of
                         [] \<Rightarrow> (False, lit)
                       | c # cs \<Rightarrow> if c = CHR ''-'' then (True, cs) else (False, lit));
          v = (if neg then - int (digits_value ds) else int (digits_value ds))
      in if ds = [] \<or> \<not> list_all is_digit ds then None
         else if - (2 ^ 63) \<le> v \<and> v < 2 ^ 63 then Some v
         else None)"

text \<open>
  Storing a value into a target of kind string, int and float64: the new content of the
  target, or \<open>None\<close> for an \<^verbatim>\<open>UnmarshalTypeError\<close>. The JSON \<^verbatim>\<open>null\<close> has no effect on
  such a target and is no error. \<open>pf\<close> is \<^verbatim>\<open>strconv.ParseFloat(lit, 64)\<close> on a number
  literal, \<open>None\<close> where it reports a range error.
\<close>

fun store_string :: "json \<Rightarrow> string \<Rightarrow> string option" where
  "store_string JNull cur = Some cur"
| "store_string (JString s) cur = Some s"
| "store_string _ cur = None"

fun store_int :: "json \<Rightarrow> int \<Rightarrow> int option" where
  "store_int JNull cur = Some cur"
| "store_int (JNumber lit) cur = ParseInt lit"
| "store_int _ cur = None"

fun store_float64 :: "(string \<Rightarrow> float64 option) \<Rightarrow> json \<Rightarrow> float64 \<Rightarrow> float64 option" where
  "store_float64 pf JNull cur = Some cur"
| "store_float64 pf (JNumber lit) cur = pf lit"
| "store_float64 pf _ cur = None"

text \<open>
  \<^verbatim>\<open>json.Unmarshal(data, &x)\<close> for a fresh \<^verbatim>\<open>var x float64\<close> and \<^verbatim>\<open>var x string\<close>.
\<close>

definition Unmarshal_float64 :: "(string \<Rightarrow> float64 option) \<Rightarrow> string \<Rightarrow> json_error + float64" where
  "Unmarshal_float64 pf data =
     (case parse_json data of
        None \<Rightarrow> Inl SyntaxError
      | Some v \<Rightarrow>
          (case store_float64 pf v (Finite 0) of
             None \<Rightarrow> Inl UnmarshalTypeError
           | Some x \<Rightarrow> Inr x))"

definition Unmarshal_string :: "string \<Rightarrow> json_error + string" where
  "Unmarshal_string data =
     (case parse_json data of
        None \<Rightarrow> Inl SyntaxError
      | Some v \<Rightarrow>
          (case store_string v [] of
             None \<Rightarrow> Inl UnmarshalTypeError
           | Some x \<Rightarrow> Inr x))"

text \<open>
  An object's member goes to the struct field whose JSON name equals the member's name
  up to case folding. All field names of the package are ASCII letters; a member name
  folds to such a name only through ASCII case, U+017F (long s, bytes C5 BF) and U+212A
  (Kelvin sign, bytes E2 84 AA).
\<close>

fun foldName :: "string \<Rightarrow> string" where
  "foldName [] = []"
| "foldName (c # cs) =
     (if 0x61 \<le> byte c \<and> byte c \<le> 0x7A then chr (byte c - 0x20) # foldName cs
      else if c = CHR 0xC5 \<and> take 1 cs = [CHR 0xBF] then CHR ''S'' # foldName (drop 1 cs)
      else if c = CHR 0xE2 \<and> take 2 cs = [CHR 0x84, CHR 0xAA] then CHR ''K'' # foldName (drop 2 cs)
      else c # foldName cs)"

definition field_is :: "string \<Rightarrow> string \<Rightarrow> bool" where
  "field_is name key = (foldName key = foldName name)"

text \<open>
  The members of an object are stored in the order of the text. \<open>st key v x\<close> stores
  the member into the struct \<open>x\<close>; a member that does not fit its field leaves it as it
  is, decoding goes on, and the first such error is what \<^verbatim>\<open>Unmarshal\<close> returns at the end.
\<close>

fun decode_members ::
  "(string \<Rightarrow> json \<Rightarrow> 'a \<Rightarrow> 'a option) \<Rightarrow> (string \<times> json) list \<Rightarrow> 'a \<Rightarrow> bool \<Rightarrow> 'a \<times> bool" where
  "decode_members st [] x ok = (x, ok)"
| "decode_members st ((k, v) # ms) x ok =
     (case st k v x of
        None \<Rightarrow> decode_members st ms x False
      | Some x' \<Rightarrow> decode_members st ms x' ok)"

text \<open>
  \<^verbatim>\<open>json.Unmarshal(data, &x)\<close> for a struct \<open>x\<close> that starts as \<open>zero\<close>. A top-level
  \<^verbatim>\<open>null\<close> leaves the struct as it is; any value but an object or \<^verbatim>\<open>null\<close> is an
  \<^verbatim>\<open>UnmarshalTypeError\<close>.
\<close>

definition decode_struct ::
  "(string \<Rightarrow> json \<Rightarrow> 'a \<Rightarrow> 'a option) \<Rightarrow> 'a \<Rightarrow> string \<Rightarrow> json_error + 'a" where
  "decode_struct st zero data =
     (case parse_json data of
        None \<Rightarrow> Inl SyntaxError
      | Some JNull \<Rightarrow> Inr zero
      | Some (JObject ms) \<Rightarrow>
          (case decode_members st ms zero True of
             (x, ok) \<Rightarrow> if ok then Inr x else Inl UnmarshalTypeError)
      | Some _ \<Rightarrow> Inl UnmarshalTypeError)"

subsection \<open>Encoding (json.Marshal)\<close>

definition hexdigit :: "nat \<Rightarrow> char" where
  "hexdigit n = ''0123456789abcdef'' ! n"

text \<open>
  \<^verbatim>\<open>htmlSafeSet\<close>: the ASCII bytes \<^verbatim>\<open>json.Marshal\<close> writes as they are, those from the space
  on but for the quote, the backslash and \<^verbatim>\<open><\<close>, \<^verbatim>\<open>>\<close>, \<^verbatim>\<open>&\<close>.
\<close>

definition htmlSafe :: "char \<Rightarrow> bool" where
  "htmlSafe c =
     (0x20 \<le> byte c \<and> byte c < 0x80 \<and> c \<noteq> quote \<and> c \<noteq> backslash
      \<and> c \<noteq> CHR ''<'' \<and> c \<noteq> CHR ''>'' \<and> c \<noteq> CHR ''&'')"

text \<open>
  \<^verbatim>\<open>appendString\<close> with HTML escaping, without the surrounding quotes: a byte that is
  not the start of a valid UTF-8 sequence is written as the escape of U+FFFD, and U+2028
  and U+2029 are escaped.
\<close>

function appendString :: "string \<Rightarrow> string" where
  "appendString [] = []"
| "appendString (c # s) =
     (if byte c < 0x80 then
        (if htmlSafe c then c # appendString s
         else if c = backslash \<or> c = quote then backslash # c # appendString s
         else if c = CHR 0x08 then backslash # CHR ''b'' # appendString s
         else if c = CHR 0x0C then backslash # CHR ''f'' # appendString s
         else if c = CHR 0x0A then backslash # CHR ''n'' # appendString s
         else if c = CHR 0x0D then backslash # CHR ''r'' # appendString s
         else if c = CHR 0x09 then backslash # CHR ''t'' # appendString s
         else backslash # ''u00'' @ [hexdigit (byte c div 16), hexdigit (byte c mod 16)]
                @ appendString s)
      else
        (let r = fst (DecodeRune (take 4 (c # s)));
             size = snd (DecodeRune (take 4 (c # s)))
         in if r = RuneError \<and> size = 1 then backslash # ''ufffd'' @ appendString s
            else if r = 0x2028 \<or> r = 0x2029 then
              backslash # ''u202'' @ [hexdigit (r mod 16)] @ appendString (drop (size - 1) s)
            else take size (c # s) @ appendString (drop (size - 1) s)))"
  by pat_completeness auto
termination
  by (relation "measure length") auto

definition encode_string :: "string \<Rightarrow> string" where
  "encode_string s = quote # appendString s @ [quote]"

text \<open>
  A float64 is encoded by the formatter \<open>ff\<close> (a parameter, see above); a NaN or an
  infinity is an \<^verbatim>\<open>UnsupportedValueError\<close>.
\<close>

datatype marshal_error = UnsupportedValueError

definition encode_float :: "(float64 \<Rightarrow> string) \<Rightarrow> float64 \<Rightarrow> marshal_error + string" where
  "encode_float ff x = (case x of Finite r \<Rightarrow> Inr (ff x) | _ \<Rightarrow> Inl UnsupportedValueError)"

section \<open>Decoding the package's records\<close>

text \<open>
  \<^verbatim>\<open>Error\<close>, the business error (fields prefixed \<open>e_\<close>), and \<^verbatim>\<open>APIError\<close>, the gateway's
  error envelope (fields prefixed \<open>a_\<close>). \<^verbatim>\<open>Details\<close> is a \<^verbatim>\<open>json.RawMessage\<close>: it takes any
  JSON value as it stands, represented here by the value the raw bytes denote.
\<close>

record Error =
  e_StatusCode :: string
  e_Message :: string
  e_Details :: string

record APIError =
  a_StatusCode :: int
  a_Reason :: string
  a_Message :: string
  a_Details :: "json option"

definition store_APIError :: "string \<Rightarrow> json \<Rightarrow> APIError \<Rightarrow> APIError option" where
  "store_APIError key v x =
     (if field_is ''statusCode'' key then
        map_option (\<lambda>n. x\<lparr>a_StatusCode := n\<rparr>) (store_int v (a_StatusCode x))
      else if field_is ''reason'' key then
        map_option (\<lambda>s. x\<lparr>a_Reason := s\<rparr>) (store_string v (a_Reason x))
      else if field_is ''message'' key then
        map_option (\<lambda>s. x\<lparr>a_Message := s\<rparr>) (store_string v (a_Message x))
      else if field_is ''details'' key then Some (x\<lparr>a_Details := Some v\<rparr>)
      else Some x)"

definition Unmarshal_APIError :: "string \<Rightarrow> json_error + APIError" where
  "Unmarshal_APIError data =
     decode_struct store_APIError
       \<lparr>a_StatusCode = 0, a_Reason = [], a_Message = [], a_Details = None\<rparr> data"

definition store_Response ::
  "string \<Rightarrow> json \<Rightarrow> MobileMoneyCollectionResponse \<Rightarrow> MobileMoneyCollectionResponse option" where
  "store_Response key v x =
     (if field_is ''statusCode'' key then
        map_option (\<lambda>s. x\<lparr>r_StatusCode := s\<rparr>) (store_string v (r_StatusCode x))
      else if field_is ''transactionRef'' key then
        map_option (\<lambda>s. x\<lparr>r_TransactionRef := s\<rparr>) (store_string v (r_TransactionRef x))
      else if field_is ''transactionId'' key then
        map_option (\<lambda>s. x\<lparr>r_TransactionID := s\<rparr>) (store_string v (r_TransactionID x))
      else Some x)"

definition Unmarshal_Response :: "string \<Rightarrow> json_error + MobileMoneyCollectionResponse" where
  "Unmarshal_Response data =
     decode_struct store_Response
       \<lparr>r_StatusCode = [], r_TransactionRef = [], r_TransactionID = []\<rparr> data"

definition store_Webhook :: "string \<Rightarrow> json \<Rightarrow> WebhookPayload \<Rightarrow> WebhookPayload option" where
  "store_Webhook key v x =
     (if field_is ''statusCode'' key then
        map_option (\<lambda>s. x\<lparr>wh_StatusCode := s\<rparr>) (store_string v (wh_StatusCode x))
      else if field_is ''transactionRef'' key then
        map_option (\<lambda>s. x\<lparr>wh_TransactionRef := s\<rparr>) (store_string v (wh_TransactionRef x))
      else if field_is ''transactionId'' key then
        map_option (\<lambda>s. x\<lparr>wh_TransactionID := s\<rparr>) (store_string v (wh_TransactionID x))
      else Some x)"

definition Unmarshal_Webhook :: "string \<Rightarrow> json_error + WebhookPayload" where
  "Unmarshal_Webhook data =
     decode_struct store_Webhook
       \<lparr>wh_StatusCode = [], wh_TransactionRef = [], wh_TransactionID = []\<rparr> data"

definition store_CollectionRequest ::
  "(string \<Rightarrow> float64 option) \<Rightarrow> string \<Rightarrow> json \<Rightarrow> MobileMoneyCollectionRequest
     \<Rightarrow> MobileMoneyCollectionRequest option" where
  "store_CollectionRequest pf key v x =
     (if field_is ''msisdn'' key then
        map_option (\<lambda>s. x\<lparr>MSISDN := s\<rparr>) (store_string v (MSISDN x))
      else if field_is ''channel'' key then
        map_option (\<lambda>s. x\<lparr>Channel := s\<rparr>) (store_string v (Channel x))
      else if field_is ''amount'' key then
        map_option (\<lambda>a. x\<lparr>Amount := a\<rparr>) (store_float64 pf v (Amount x))
      else if field_is ''narration'' key then
        map_option (\<lambda>s. x\<lparr>Narration := s\<rparr>) (store_string v (Narration x))
      else if field_is ''transactionRef'' key then
        map_option (\<lambda>s. x\<lparr>TransactionRef := s\<rparr>) (store_string v (TransactionRef x))
      else if field_is ''transactionDate'' key then
        map_option (\<lambda>s. x\<lparr>TransactionDate := s\<rparr>) (store_string v (TransactionDate x))
      else if field_is ''callbackUrl'' key then
        map_option (\<lambda>s. x\<lparr>CallbackURL := s\<rparr>) (store_string v (CallbackURL x))
      else Some x)"

definition Unmarshal_CollectionRequest ::
  "(string \<Rightarrow> float64 option) \<Rightarrow> string \<Rightarrow> json_error + MobileMoneyCollectionRequest" where
  "Unmarshal_CollectionRequest pf data =
     decode_struct (store_CollectionRequest pf)
       \<lparr>MSISDN = [], Channel = [], Amount = Finite 0, Narration = [], TransactionRef = [],
        TransactionDate = [], CallbackURL = []\<rparr> data"

subsection \<open>NullableFloat64\<close>

record NullableFloat64 =
  Value :: "float64 option"

text \<open>
  \<^verbatim>\<open>parseFloatFromString\<close> returns its zero-initialised variable and the error of
  \<^verbatim>\<open>json.Unmarshal\<close>; the variable is unchanged when the error is not nil.
\<close>

definition parseFloatFromString ::
  "(string \<Rightarrow> float64 option) \<Rightarrow> string \<Rightarrow> float64 \<times> json_error option" where
  "parseFloatFromString pf s =
     (case Unmarshal_float64 pf s of
        Inl err \<Rightarrow> (Finite 0, Some err)
      | Inr v \<Rightarrow> (v, None))"

text \<open>
  \<^verbatim>\<open>(n *NullableFloat64) UnmarshalJSON(b)\<close>: the receiver after the call and the error
  returned.
\<close>

definition UnmarshalJSON ::
  "(string \<Rightarrow> float64 option) \<Rightarrow> NullableFloat64 \<Rightarrow> string \<Rightarrow> NullableFloat64 \<times> json_error option" where
  "UnmarshalJSON pf n b =
     (if b = ''null'' \<or> b = [quote, quote] then (n\<lparr>Value := None\<rparr>, None)
      else case Unmarshal_float64 pf b of
        Inr num \<Rightarrow> (n\<lparr>Value := Some num\<rparr>, None)
      | Inl _ \<Rightarrow>
          (case Unmarshal_string b of
             Inr s \<Rightarrow>
               if s = [] then (n\<lparr>Value := None\<rparr>, None)
               else (case Unmarshal_float64 pf s of
                       Inr parsed \<Rightarrow> (n\<lparr>Value := Some parsed\<rparr>, None)
                     | Inl _ \<Rightarrow>
                         (case parseFloatFromString pf s of
                            (v, None) \<Rightarrow> (n\<lparr>Value := Some v\<rparr>, None)
                          | (v, Some _) \<Rightarrow> (n\<lparr>Value := None\<rparr>, None)))
           | Inl _ \<Rightarrow> (n\<lparr>Value := None\<rparr>, None)))"

section \<open>Encoding the package's requests\<close>

text \<open>\<^verbatim>\<open>json.Marshal\<close> of the three request structs, fields in the order of the struct.\<close>

definition Marshal_CollectionRequest ::
  "(float64 \<Rightarrow> string) \<Rightarrow> MobileMoneyCollectionRequest \<Rightarrow> marshal_error + string" where
  "Marshal_CollectionRequest ff r =
     (case encode_float ff (Amount r) of
        Inl err \<Rightarrow> Inl err
      | Inr amount \<Rightarrow>
          Inr (''{\"msisdn\":'' @ encode_string (MSISDN r)
               @ '',\"channel\":'' @ encode_string (Channel r)
               @ '',\"amount\":'' @ amount
               @ '',\"narration\":'' @ encode_string (Narration r)
               @ '',\"transactionRef\":'' @ encode_string (TransactionRef r)
               @ '',\"transactionDate\":'' @ encode_string (TransactionDate r)
               @ '',\"callbackUrl\":'' @ encode_string (CallbackURL r)
               @ ''}''))"

definition Marshal_WalletToMobileRequest ::
  "(float64 \<Rightarrow> string) \<Rightarrow> WalletToMobileRequest \<Rightarrow> marshal_error + string" where
  "Marshal_WalletToMobileRequest ff r =
     (case encode_float ff (w_Amount r) of
        Inl err \<Rightarrow> Inl err
      | Inr amount \<Rightarrow>
          Inr (''{\"countryCode\":'' @ encode_string (w_CountryCode r)
               @ '',\"accountNo\":'' @ encode_string (w_AccountNo r)
               @ '',\"serviceCode\":'' @ encode_string (w_ServiceCode r)
               @ '',\"amount\":'' @ amount
               @ '',\"msisdn\":'' @ encode_string (w_MSISDN r)
               @ '',\"narration\":'' @ encode_string (w_Narration r)
               @ '',\"currencyCode\":'' @ encode_string (w_CurrencyCode r)
               @ '',\"recipientNames\":'' @ encode_string (w_RecipientNames r)
               @ '',\"transactionRef\":'' @ encode_string (w_TransactionRef r)
               @ '',\"transactionDate\":'' @ encode_string (w_TransactionDate r)
               @ '',\"callbackUrl\":'' @ encode_string (w_CallbackURL r)
               @ ''}''))"

text \<open>Both fields of \<^verbatim>\<open>PaymentStatusRequest\<close> are \<^verbatim>\<open>omitempty\<close>.\<close>

definition Marshal_PaymentStatusRequest :: "PaymentStatusRequest \<Rightarrow> string" where
  "Marshal_PaymentStatusRequest r =
     ''{''
     @ (if s_TransactionRef r = [] then []
        else ''\"transactionRef\":'' @ encode_string (s_TransactionRef r))
     @ (if s_TransactionID r = [] then []
        else (if s_TransactionRef r = [] then [] else '','')
             @ ''\"transactionId\":'' @ encode_string (s_TransactionID r))
     @ ''}''"

text \<open>The \<^verbatim>\<open>payload interface{}\<close> of \<^verbatim>\<open>makeRequest\<close>: what its callers pass.\<close>

datatype payload =
  CollectionPayload MobileMoneyCollectionRequest
  | WalletPayload WalletToMobileRequest
  | StatusPayload PaymentStatusRequest

fun Marshal :: "(float64 \<Rightarrow> string) \<Rightarrow> payload \<Rightarrow> marshal_error + string" where
  "Marshal ff (CollectionPayload r) = Marshal_CollectionRequest ff r"
| "Marshal ff (WalletPayload r) = Marshal_WalletToMobileRequest ff r"
| "Marshal ff (StatusPayload r) = Inr (Marshal_PaymentStatusRequest r)"

section \<open>Errors and the network\<close>

text \<open>
  A Go \<^verbatim>\<open>error\<close> of the package: a \<^verbatim>\<open>fmt.Errorf\<close> with a fixed text (\<open>Errorf\<close>, the
  validation messages), one constructor for each \<^verbatim>\<open>fmt.Errorf\<close> that wraps a cause or
  formats the reply, an \<^verbatim>\<open>APIError\<close> and an \<^verbatim>\<open>Error\<close>.
\<close>

datatype go_error =
  Errorf string
  | MarshalFailed marshal_error
  | CreateRequestFailed
  | RequestFailed
  | ReadFailed
  | UnexpectedStatus int string
  | UnmarshalFailed json_error
  | WebhookParseFailed json_error
  | APIErr APIError
  | BusinessErr Error

text \<open>The request handed to the HTTP client: method, URL, headers as set, body.\<close>

record http_request =
  rq_method :: string
  rq_url :: string
  rq_headers :: "(string \<times> string) list"
  rq_body :: "string option"

text \<open>
  What \<^verbatim>\<open>httpClient.Do\<close> and \<^verbatim>\<open>io.ReadAll\<close> give for a request: an error of \<^verbatim>\<open>Do\<close>
  (connection failure, timeout, cancelled context), an error while reading the body, or
  a status code and a body.
\<close>

datatype net_result = DoError | ReadError | Reply int string

text \<open>
  The surroundings of a call: the clock reading of \<^verbatim>\<open>time.Now().UnixNano()\<close>, the
  network, and the number formatter of \<^verbatim>\<open>json.Marshal\<close>.
\<close>

record world =
  now :: int
  network :: "http_request \<Rightarrow> net_result"
  FormatFloat :: "float64 \<Rightarrow> string"

text \<open>The \<^verbatim>\<open>context.Context\<close> argument: \<^verbatim>\<open>nil\<close> or a context.\<close>

datatype ctx = NilContext | Context

definition StatusOK :: int where
  "StatusOK = 200"

definition MethodPost :: string where
  "MethodPost = ''POST''"

text \<open>Decimal digits, for \<^verbatim>\<open>%d\<close>.\<close>

function decimal :: "nat \<Rightarrow> string" where
  "decimal n = (if n < 10 then [chr (0x30 + n)] else decimal (n div 10) @ [chr (0x30 + n mod 10)])"
  by pat_completeness auto
termination
  by (relation "measure id") auto

definition Itoa :: "int \<Rightarrow> string" where
  "Itoa i = (if i < 0 then CHR ''-'' # decimal (nat (- i)) else decimal (nat i))"

definition generateRequestID :: "world \<Rightarrow> string" where
  "generateRequestID w = ''req_'' @ Itoa (now w)"

text \<open>
  \<^verbatim>\<open>http.NewRequestWithContext\<close> fails on a nil context. (It also fails on a malformed
  method or URL; the package calls it with \<^verbatim>\<open>POST\<close> and a URL made of a constant base
  and a constant path.)
\<close>

definition NewRequestWithContext :: "ctx \<Rightarrow> string \<Rightarrow> string \<Rightarrow> string option \<Rightarrow> http_request option" where
  "NewRequestWithContext cx meth url body =
     (case cx of
        NilContext \<Rightarrow> None
      | Context \<Rightarrow> Some \<lparr>rq_method = meth, rq_url = url, rq_headers = [], rq_body = body\<rparr>)"

section \<open>The transport adapter\<close>

text \<open>
  The result of an operation is the pair Go returns, a response pointer (\<open>None\<close> is
  \<^verbatim>\<open>nil\<close>) and an error (\<open>None\<close> is \<^verbatim>\<open>nil\<close>), together with the requests that were
  handed to the HTTP client, in order: no network call was made when that list is empty.
\<close>

type_synonym result =
  "(MobileMoneyCollectionResponse option \<times> go_error option) \<times> http_request list"

definition makeRequest ::
  "world \<Rightarrow> Client \<Rightarrow> ctx \<Rightarrow> string \<Rightarrow> string \<Rightarrow> payload option \<Rightarrow> result" where
  "makeRequest w c cx meth endpoint pl =
     (case (case pl of
              None \<Rightarrow> Inr None
            | Some p \<Rightarrow> (case Marshal (FormatFloat w) p of
                          Inl err \<Rightarrow> Inl err
                        | Inr jsonData \<Rightarrow> Inr (Some jsonData))) of
        Inl err \<Rightarrow> ((None, Some (MarshalFailed err)), [])
      | Inr body \<Rightarrow>
          (case NewRequestWithContext cx meth (baseURL c @ endpoint) body of
             None \<Rightarrow> ((None, Some CreateRequestFailed), [])
           | Some req0 \<Rightarrow>
               (let req = req0\<lparr>rq_headers :=
                            [(''Content-Type'', ''application/json''),
                             (''x-account-id'', accountID c),
                             (''x-secret-key'', secretKey c),
                             (''x-request-id'', generateRequestID w)]\<rparr>
                in case network w req of
                     DoError \<Rightarrow> ((None, Some RequestFailed), [req])
                   | ReadError \<Rightarrow> ((None, Some ReadFailed), [req])
                   | Reply status respBody \<Rightarrow>
                       if status \<noteq> StatusOK then
                         (case Unmarshal_APIError respBody of
                            Inr apiErr \<Rightarrow>
                              if a_StatusCode apiErr \<noteq> 0
                              then ((None, Some (APIErr apiErr)), [req])
                              else ((None, Some (UnexpectedStatus status respBody)), [req])
                          | Inl _ \<Rightarrow> ((None, Some (UnexpectedStatus status respBody)), [req]))
                       else
                         (case Unmarshal_Response respBody of
                            Inl err \<Rightarrow> ((None, Some (UnmarshalFailed err)), [req])
                          | Inr response \<Rightarrow>
                              if r_StatusCode response = StatusPaymentRejected
                                 \<or> r_StatusCode response = StatusGenericError
                              then ((Some response,
                                     Some (BusinessErr \<lparr>e_StatusCode = r_StatusCode response,
                                                       e_Message = ''Request failed'',
                                                       e_Details = []\<rparr>)), [req])
                              else ((Some response, None), [req])))))"

section \<open>Validation rules and operations\<close>

text \<open>\<^verbatim>\<open>%v\<close> of a slice of strings.\<close>

fun join_spaces :: "string list \<Rightarrow> string" where
  "join_spaces [] = []"
| "join_spaces [x] = x"
| "join_spaces (x # xs) = x @ '' '' @ join_spaces xs"

definition show_strings :: "string list \<Rightarrow> string" where
  "show_strings xs = ''['' @ join_spaces xs @ '']''"

text \<open>The validation functions return an error, \<open>None\<close> for \<^verbatim>\<open>nil\<close>.\<close>

definition validateMobileMoneyRequest :: "Client \<Rightarrow> MobileMoneyCollectionRequest \<Rightarrow> go_error option" where
  "validateMobileMoneyRequest c req =
     (if MSISDN req = [] then Some (Errorf ''MSISDN is required'')
      else if Channel req = [] then Some (Errorf ''channel is required'')
      else if le_zero (Amount req) then Some (Errorf ''amount must be greater than 0'')
      else if Narration req = [] then Some (Errorf ''narration is required'')
      else if TransactionRef req = [] then Some (Errorf ''transactionRef is required'')
      else if TransactionDate req = [] then Some (Errorf ''transactionDate is required'')
      else if CallbackURL req = [] then Some (Errorf ''callbackUrl is required'')
      else if \<not> isValidChannel (Channel req) then
        Some (Errorf (''invalid channel: '' @ Channel req @ ''. Supported channels: ''
                      @ show_strings GetSupportedChannels))
      else None)"

definition CollectFromMobileMoney ::
  "world \<Rightarrow> Client \<Rightarrow> ctx \<Rightarrow> MobileMoneyCollectionRequest \<Rightarrow> result" where
  "CollectFromMobileMoney w c cx req =
     (case validateMobileMoneyRequest c req of
        Some err \<Rightarrow> ((None, Some err), [])
      | None \<Rightarrow>
          (case makeRequest w c cx MethodPost EndpointCollection (Some (CollectionPayload req)) of
             ((response, err), sent) \<Rightarrow>
               if err \<noteq> None then ((response, err), sent)
               else ((response, None), sent)))"

text \<open>
  \<^verbatim>\<open>ValidateWebhook\<close> makes no network call: it returns a payload pointer and an error.
\<close>

definition ValidateWebhook :: "Client \<Rightarrow> string \<Rightarrow> WebhookPayload option \<times> go_error option" where
  "ValidateWebhook c pl =
     (case Unmarshal_Webhook pl of
        Inl err \<Rightarrow> (None, Some (WebhookParseFailed err))
      | Inr webhook \<Rightarrow>
          if wh_TransactionRef webhook = [] \<or> wh_TransactionID webhook = []
          then (None, Some (Errorf ''invalid webhook payload: missing required fields''))
          else (Some webhook, None))"

definition GetCollectionStatus :: "world \<Rightarrow> Client \<Rightarrow> ctx \<Rightarrow> PaymentStatusRequest \<Rightarrow> result" where
  "GetCollectionStatus w c cx req =
     (if s_TransactionRef req = [] \<and> s_TransactionID req = []
      then ((None, Some (Errorf ''either transactionRef or transactionId is required'')), [])
      else makeRequest w c cx MethodPost EndpointCollectionStatus (Some (StatusPayload req)))"

definition GetPaymentStatus :: "world \<Rightarrow> Client \<Rightarrow> ctx \<Rightarrow> PaymentStatusRequest \<Rightarrow> result" where
  "GetPaymentStatus w c cx req =
     (if s_TransactionRef req = [] \<and> s_TransactionID req = []
      then ((None, Some (Errorf ''either transactionRef or transactionId is required'')), [])
      else makeRequest w c cx MethodPost EndpointPaymentStatus (Some (StatusPayload req)))"

definition validateWalletToMobileRequest :: "Client \<Rightarrow> WalletToMobileRequest \<Rightarrow> go_error option" where
  "validateWalletToMobileRequest c req =
     (if w_CountryCode req = [] then Some (Errorf ''countryCode is required'')
      else if w_CountryCode req \<noteq> ''TZ'' then
        Some (Errorf (''unsupported countryCode: '' @ w_CountryCode req))
      else if w_AccountNo req = [] then Some (Errorf ''accountNo is required'')
      else if w_ServiceCode req = [] then Some (Errorf ''serviceCode is required'')
      else if \<not> isValidService (w_ServiceCode req) then
        Some (Errorf (''invalid serviceCode: '' @ w_ServiceCode req @ ''. Supported services: ''
                      @ show_strings GetSupportedServices))
      else if le_zero (w_Amount req) then Some (Errorf ''amount must be greater than 0'')
      else if w_MSISDN req = [] then Some (Errorf ''msisdn is required'')
      else if w_Narration req = [] then Some (Errorf ''narration is required'')
      else if w_CurrencyCode req = [] then Some (Errorf ''currencyCode is required'')
      else if w_CurrencyCode req \<noteq> ''TZS'' then
        Some (Errorf (''unsupported currencyCode: '' @ w_CurrencyCode req))
      else if w_RecipientNames req = [] then Some (Errorf ''recipientNames is required'')
      else if w_TransactionRef req = [] then Some (Errorf ''transactionRef is required'')
      else if w_TransactionDate req = [] then Some (Errorf ''transactionDate is required'')
      else if w_CallbackURL req = [] then Some (Errorf ''callbackUrl is required'')
      else None)"

definition PayWalletToMobile :: "world \<Rightarrow> Client \<Rightarrow> ctx \<Rightarrow> WalletToMobileRequest \<Rightarrow> result" where
  "PayWalletToMobile w c cx req =
     (case validateWalletToMobileRequest c req of
        Some err \<Rightarrow> ((None, Some err), [])
      | None \<Rightarrow> makeRequest w c cx MethodPost EndpointPaymentWalletToMobile (Some (WalletPayload req)))"

definition PayWalletToBank :: "world \<Rightarrow> Client \<Rightarrow> ctx \<Rightarrow> WalletToMobileRequest \<Rightarrow> result" where
  "PayWalletToBank w c cx req =
     (let req1 = (if w_ServiceCode req = [] then req\<lparr>w_ServiceCode := ServiceTZBankB2C\<rparr> else req)
      in if w_ServiceCode req1 \<noteq> ServiceTZBankB2C
         then ((None, Some (Errorf (''serviceCode must be '' @ ServiceTZBankB2C @ '' for bank payouts''))), [])
         else PayWalletToMobile w c cx req1)"

section \<open>Example inputs\<close>

text \<open>
  A client of the sandbox, a world whose network answers every request with one fixed
  reply, and a bank payout request; the concrete instances below are stated on them.
\<close>

definition example_client :: Client where
  "example_client =
     NewClient \<lparr>Environmen = ''sandbox'', AccountID = ''acc-1'', SecretKey = ''key-1'', Timeout = 0\<rparr>"

definition example_world :: "int \<Rightarrow> string \<Rightarrow> world" where
  "example_world status body =
     \<lparr>now = 1700000000000000000, network = (\<lambda>_. Reply status body), FormatFloat = (\<lambda>_. ''1000'')\<rparr>"

definition example_payout :: "string \<Rightarrow> WalletToMobileRequest" where
  "example_payout service =
     \<lparr>w_CountryCode = ''TZ'', w_AccountNo = ''0123456789'', w_ServiceCode = service,
      w_Amount = Finite 1000, w_MSISDN = ''CORUTZTZ:0150000000'', w_Narration = ''Payout'',
      w_CurrencyCode = ''TZS'', w_RecipientNames = ''Jane Doe'', w_TransactionRef = ''TXN_2'',
      w_TransactionDate = ''2024-01-01 10:00:00'', w_CallbackURL = ''https://example.com/cb''\<rparr>"

definition example_collection :: "float64 \<Rightarrow> MobileMoneyCollectionRequest" where
  "example_collection amount =
     \<lparr>MSISDN = ''255712345678'', Channel = ''TZ-TIGO-C2B'', Amount = amount,
      Narration = ''Payment'', TransactionRef = ''TXN_1'',
      TransactionDate = ''2024-01-01 10:00:00'', CallbackURL = ''https://example.com/cb''\<rparr>"

definition body_rejected :: string where
  "body_rejected = ''{\"statusCode\":\"PAYMENT_REJECTED\",\"transactionRef\":\"TXN_1\",\"transactionId\":\"T-9\"}''"

definition body_pending :: string where
  "body_pending = ''{\"statusCode\":\"PENDING_ACK\",\"transactionRef\":\"TXN_1\",\"transactionId\":\"T-9\"}''"

definition body_credentials :: string where
  "body_credentials = ''{\"statusCode\":401,\"reason\":\"INVALID_CREDENTIALS\"}''"

definition body_html :: string where
  "body_html = ''<html>Bad Gateway</html>''"

definition example_status_request :: PaymentStatusRequest where
  "example_status_request = \<lparr>s_TransactionRef = ''TXN_1'', s_TransactionID = []\<rparr>"

section \<open>Theorems\<close>

subsection \<open>Client construction\<close>

text \<open>
  Claim C10. \<^verbatim>\<open>NewClient\<close> never rejects a configuration: it is a total function to a
  client. Every environment other than the exact string \<^verbatim>\<open>production\<close> (the empty string
  and misspellings included) resolves to the sandbox host, a zero timeout becomes 30
  seconds, and every other value of the configuration is taken as given.
\<close>

theorem NewClient_total:
  "(Environmen cfg \<noteq> ''production'' \<longrightarrow> baseURL (NewClient cfg) = ''https://sandbox.temboplus.com'')
   \<and> (Environmen cfg = ''production'' \<longrightarrow> baseURL (NewClient cfg) = ''https://api.temboplus.com'')
   \<and> (Timeout cfg = 0 \<longrightarrow> httpClient_Timeout (NewClient cfg) = 30 * Second)
   \<and> (Timeout cfg \<noteq> 0 \<longrightarrow> httpClient_Timeout (NewClient cfg) = Timeout cfg)
   \<and> accountID (NewClient cfg) = AccountID cfg
   \<and> secretKey (NewClient cfg) = SecretKey cfg"
  by (simp add: NewClient_def Production_def DefaultBaseURLSandbox_def
        DefaultBaseURLProduction_def Let_def)

text \<open>A misspelled environment with no timeout, and an empty environment with one.\<close>

theorem NewClient_total_witness:
  "baseURL (NewClient \<lparr>Environmen = ''prodution'', AccountID = ''acc'', SecretKey = ''key'', Timeout = 0\<rparr>)
     = ''https://sandbox.temboplus.com''
   \<and> baseURL (NewClient \<lparr>Environmen = [], AccountID = ''acc'', SecretKey = ''key'', Timeout = 5 * Second\<rparr>)
     = ''https://sandbox.temboplus.com''
   \<and> httpClient_Timeout (NewClient \<lparr>Environmen = ''prodution'', AccountID = ''acc'', SecretKey = ''key'', Timeout = 0\<rparr>)
     = 30000000000
   \<and> httpClient_Timeout (NewClient \<lparr>Environmen = [], AccountID = ''acc'', SecretKey = ''key'', Timeout = 5 * Second\<rparr>)
     = 5000000000"
  using NewClient_total[of "\<lparr>Environmen = ''prodution'', AccountID = ''acc'', SecretKey = ''key'', Timeout = 0\<rparr>"]
        NewClient_total[of "\<lparr>Environmen = [], AccountID = ''acc'', SecretKey = ''key'', Timeout = 5 * Second\<rparr>"]
  by (simp add: Second_def)

subsection \<open>Status queries\<close>

lemma makeRequest_status_sent:
  "length (snd (makeRequest w c Context meth endpoint (Some (StatusPayload req)))) = 1"
  by (simp add: makeRequest_def NewRequestWithContext_def Let_def
        split: net_result.split sum.split)

text \<open>
  Claim C7. \<^verbatim>\<open>GetCollectionStatus\<close> and \<^verbatim>\<open>GetPaymentStatus\<close> reject a request whose
  transaction reference and transaction id are both empty, with an error and before any
  network call (the list of requests sent is empty). With at least one identifier the
  call is the transport adapter's call for that request, and with a context the request
  is handed to the HTTP client.
\<close>

theorem status_query_identifier:
  "(s_TransactionRef req = [] \<and> s_TransactionID req = [] \<longrightarrow>
      GetCollectionStatus w c cx req
        = ((None, Some (Errorf ''either transactionRef or transactionId is required'')), [])
      \<and> GetPaymentStatus w c cx req
        = ((None, Some (Errorf ''either transactionRef or transactionId is required'')), []))
   \<and> (s_TransactionRef req \<noteq> [] \<or> s_TransactionID req \<noteq> [] \<longrightarrow>
      GetCollectionStatus w c cx req
        = makeRequest w c cx MethodPost EndpointCollectionStatus (Some (StatusPayload req))
      \<and> GetPaymentStatus w c cx req
        = makeRequest w c cx MethodPost EndpointPaymentStatus (Some (StatusPayload req))
      \<and> (cx = Context \<longrightarrow>
            length (snd (GetCollectionStatus w c cx req)) = 1
            \<and> length (snd (GetPaymentStatus w c cx req)) = 1))"
  by (auto simp: GetCollectionStatus_def GetPaymentStatus_def makeRequest_status_sent)

theorem status_query_identifier_witness:
  "GetCollectionStatus (example_world 200 ''{\"statusCode\":\"PENDING_ACK\"}'') example_client Context
      \<lparr>s_TransactionRef = [], s_TransactionID = []\<rparr>
     = ((None, Some (Errorf ''either transactionRef or transactionId is required'')), [])
   \<and> GetPaymentStatus (example_world 200 ''{\"statusCode\":\"PENDING_ACK\"}'') example_client Context
      \<lparr>s_TransactionRef = [], s_TransactionID = []\<rparr>
     = ((None, Some (Errorf ''either transactionRef or transactionId is required'')), [])
   \<and> length (snd (GetCollectionStatus (example_world 200 ''{\"statusCode\":\"PENDING_ACK\"}'') example_client
      Context \<lparr>s_TransactionRef = ''TXN_1'', s_TransactionID = []\<rparr>)) = 1
   \<and> length (snd (GetPaymentStatus (example_world 200 ''{\"statusCode\":\"PENDING_ACK\"}'') example_client
      Context \<lparr>s_TransactionRef = [], s_TransactionID = ''T-9''\<rparr>)) = 1"
proof -
  let ?w = "example_world 200 ''{\"statusCode\":\"PENDING_ACK\"}''"
  let ?r0 = "\<lparr>s_TransactionRef = [], s_TransactionID = []\<rparr>"
  let ?r1 = "\<lparr>s_TransactionRef = ''TXN_1'', s_TransactionID = []\<rparr>"
  let ?r2 = "\<lparr>s_TransactionRef = [], s_TransactionID = ''T-9''\<rparr>"
  have e0: "s_TransactionRef ?r0 = [] \<and> s_TransactionID ?r0 = []" by simp
  have e1: "s_TransactionRef ?r1 \<noteq> [] \<or> s_TransactionID ?r1 \<noteq> []" by simp
  have e2: "s_TransactionRef ?r2 \<noteq> [] \<or> s_TransactionID ?r2 \<noteq> []" by simp
  from status_query_identifier[of ?r0 ?w example_client Context] e0
  have a: "GetCollectionStatus ?w example_client Context ?r0
             = ((None, Some (Errorf ''either transactionRef or transactionId is required'')), [])
           \<and> GetPaymentStatus ?w example_client Context ?r0
             = ((None, Some (Errorf ''either transactionRef or transactionId is required'')), [])"
    by blast
  from status_query_identifier[of ?r1 ?w example_client Context] e1
  have b: "length (snd (GetCollectionStatus ?w example_client Context ?r1)) = 1" by blast
  from status_query_identifier[of ?r2 ?w example_client Context] e2
  have c: "length (snd (GetPaymentStatus ?w example_client Context ?r2)) = 1" by blast
  from a b c show ?thesis by blast
qed

subsection \<open>Bank payouts\<close>

text \<open>
  Claim C6. \<^verbatim>\<open>PayWalletToBank\<close> with an empty service code is \<^verbatim>\<open>PayWalletToMobile\<close> on the
  request with the service code set to \<^verbatim>\<open>TZ-BANK-B2C\<close>; with an explicit service code
  other than \<^verbatim>\<open>TZ-BANK-B2C\<close> it rejects with an error, without a network call and
  without overriding the code.
\<close>

theorem PayWalletToBank_service_code:
  "(w_ServiceCode req = [] \<longrightarrow>
      PayWalletToBank w c cx req = PayWalletToMobile w c cx (req\<lparr>w_ServiceCode := ''TZ-BANK-B2C''\<rparr>))
   \<and> (w_ServiceCode req = ''TZ-BANK-B2C'' \<longrightarrow>
      PayWalletToBank w c cx req = PayWalletToMobile w c cx req)
   \<and> (w_ServiceCode req \<noteq> [] \<and> w_ServiceCode req \<noteq> ''TZ-BANK-B2C'' \<longrightarrow>
      PayWalletToBank w c cx req
        = ((None, Some (Errorf ''serviceCode must be TZ-BANK-B2C for bank payouts'')), []))"
  by (simp add: PayWalletToBank_def ServiceTZBankB2C_def Let_def)

theorem PayWalletToBank_service_code_witness:
  "PayWalletToBank (example_world 200 ''{\"statusCode\":\"PENDING_ACK\"}'') example_client Context (example_payout [])
     = PayWalletToMobile (example_world 200 ''{\"statusCode\":\"PENDING_ACK\"}'') example_client Context
         (example_payout ''TZ-BANK-B2C'')
   \<and> PayWalletToBank (example_world 200 ''{\"statusCode\":\"PENDING_ACK\"}'') example_client Context
         (example_payout ''TZ-TIGO-B2C'')
     = ((None, Some (Errorf ''serviceCode must be TZ-BANK-B2C for bank payouts'')), [])"
proof -
  let ?w = "example_world 200 ''{\"statusCode\":\"PENDING_ACK\"}''"
  have e0: "w_ServiceCode (example_payout []) = []"
    by (simp add: example_payout_def)
  have u0: "(example_payout [])\<lparr>w_ServiceCode := ''TZ-BANK-B2C''\<rparr> = example_payout ''TZ-BANK-B2C''"
    by (simp add: example_payout_def)
  have e1: "w_ServiceCode (example_payout ''TZ-TIGO-B2C'') \<noteq> []
            \<and> w_ServiceCode (example_payout ''TZ-TIGO-B2C'') \<noteq> ''TZ-BANK-B2C''"
    by (simp add: example_payout_def)
  from PayWalletToBank_service_code[of "example_payout []" ?w example_client Context] e0
  have a: "PayWalletToBank ?w example_client Context (example_payout [])
             = PayWalletToMobile ?w example_client Context
                 ((example_payout [])\<lparr>w_ServiceCode := ''TZ-BANK-B2C''\<rparr>)"
    by blast
  from PayWalletToBank_service_code[of "example_payout ''TZ-TIGO-B2C''" ?w example_client Context] e1
  have b: "PayWalletToBank ?w example_client Context (example_payout ''TZ-TIGO-B2C'')
             = ((None, Some (Errorf ''serviceCode must be TZ-BANK-B2C for bank payouts'')), [])"
    by blast
  from a b show ?thesis unfolding u0 by blast
qed

subsection \<open>Webhooks\<close>

lemma webhook_ex1: "Unmarshal_Webhook ''{\"statusCode\":\"PAYMENT_ACCEPTED\",\"transactionRef\":\"TXN_1\"''
         = Inl SyntaxError"
  by code_simp

lemma webhook_ex2: "Unmarshal_Webhook ''{\"statusCode\":\"PAYMENT_ACCEPTED\",\"transactionRef\":7}''
         = Inl UnmarshalTypeError"
  by code_simp

lemma webhook_ex3: "Unmarshal_Webhook ''{\"statusCode\":\"PAYMENT_ACCEPTED\",\"transactionRef\":\"TXN_1\"}''
         = Inr \<lparr>wh_StatusCode = ''PAYMENT_ACCEPTED'', wh_TransactionRef = ''TXN_1'',
                wh_TransactionID = []\<rparr>"
  by code_simp

lemma webhook_ex4: "Unmarshal_Webhook
          ''{\"statusCode\":\"PAYMENT_ACCEPTED\",\"transactionRef\":\"TXN_1\",\"transactionId\":\"T-9\"}''
         = Inr \<lparr>wh_StatusCode = ''PAYMENT_ACCEPTED'', wh_TransactionRef = ''TXN_1'',
                wh_TransactionID = ''T-9''\<rparr>"
  by code_simp

text \<open>
  Claim C8. \<^verbatim>\<open>ValidateWebhook\<close> returns a decode error and no payload when the bytes do
  not decode into a \<^verbatim>\<open>WebhookPayload\<close>; a validation error and no payload when they decode
  but the transaction reference or the transaction id is empty; and otherwise the decoded
  payload with no error.
\<close>

theorem ValidateWebhook_cases:
  "(Unmarshal_Webhook pl = Inl err \<longrightarrow> ValidateWebhook c pl = (None, Some (WebhookParseFailed err)))
   \<and> (Unmarshal_Webhook pl = Inr wh \<and> (wh_TransactionRef wh = [] \<or> wh_TransactionID wh = []) \<longrightarrow>
        ValidateWebhook c pl
          = (None, Some (Errorf ''invalid webhook payload: missing required fields'')))
   \<and> (Unmarshal_Webhook pl = Inr wh \<and> wh_TransactionRef wh \<noteq> [] \<and> wh_TransactionID wh \<noteq> [] \<longrightarrow>
        ValidateWebhook c pl = (Some wh, None))"
  by (simp add: ValidateWebhook_def)

text \<open>
  Truncated JSON, a number where a string is expected, a missing transaction id, and a
  complete payload.
\<close>

theorem ValidateWebhook_cases_witness:
  "ValidateWebhook example_client ''{\"statusCode\":\"PAYMENT_ACCEPTED\",\"transactionRef\":\"TXN_1\"''
     = (None, Some (WebhookParseFailed SyntaxError))
   \<and> ValidateWebhook example_client ''{\"statusCode\":\"PAYMENT_ACCEPTED\",\"transactionRef\":7}''
     = (None, Some (WebhookParseFailed UnmarshalTypeError))
   \<and> ValidateWebhook example_client ''{\"statusCode\":\"PAYMENT_ACCEPTED\",\"transactionRef\":\"TXN_1\"}''
     = (None, Some (Errorf ''invalid webhook payload: missing required fields''))
   \<and> ValidateWebhook example_client
        ''{\"statusCode\":\"PAYMENT_ACCEPTED\",\"transactionRef\":\"TXN_1\",\"transactionId\":\"T-9\"}''
     = (Some \<lparr>wh_StatusCode = ''PAYMENT_ACCEPTED'', wh_TransactionRef = ''TXN_1'',
               wh_TransactionID = ''T-9''\<rparr>, None)"
proof -
  let ?p3 = "\<lparr>wh_StatusCode = ''PAYMENT_ACCEPTED'', wh_TransactionRef = ''TXN_1'', wh_TransactionID = []\<rparr>"
  let ?p4 = "\<lparr>wh_StatusCode = ''PAYMENT_ACCEPTED'', wh_TransactionRef = ''TXN_1'', wh_TransactionID = ''T-9''\<rparr>"
  have f3: "wh_TransactionRef ?p3 = [] \<or> wh_TransactionID ?p3 = []" by simp
  have f4: "wh_TransactionRef ?p4 \<noteq> [] \<and> wh_TransactionID ?p4 \<noteq> []" by simp
  from ValidateWebhook_cases[of _ SyntaxError example_client] webhook_ex1
  have a: "ValidateWebhook example_client
             ''{\"statusCode\":\"PAYMENT_ACCEPTED\",\"transactionRef\":\"TXN_1\"''
           = (None, Some (WebhookParseFailed SyntaxError))"
    by blast
  from ValidateWebhook_cases[of _ UnmarshalTypeError example_client] webhook_ex2
  have b: "ValidateWebhook example_client ''{\"statusCode\":\"PAYMENT_ACCEPTED\",\"transactionRef\":7}''
           = (None, Some (WebhookParseFailed UnmarshalTypeError))"
    by blast
  from ValidateWebhook_cases[of _ _ example_client ?p3] webhook_ex3 f3
  have c: "ValidateWebhook example_client
             ''{\"statusCode\":\"PAYMENT_ACCEPTED\",\"transactionRef\":\"TXN_1\"}''
           = (None, Some (Errorf ''invalid webhook payload: missing required fields''))"
    by blast
  from ValidateWebhook_cases[of _ _ example_client ?p4] webhook_ex4 f4
  have d: "ValidateWebhook example_client
             ''{\"statusCode\":\"PAYMENT_ACCEPTED\",\"transactionRef\":\"TXN_1\",\"transactionId\":\"T-9\"}''
           = (Some ?p4, None)"
    by blast
  from a b c d show ?thesis by blast
qed

subsection \<open>Validation of requests\<close>

text \<open>
  What the two validation functions accept, read off their checks. The amount check is
  the Go comparison \<^verbatim>\<open>Amount <= 0\<close>, which is false for a NaN.
\<close>

lemma validateMobileMoneyRequest_iff:
  "validateMobileMoneyRequest c req = None \<longleftrightarrow>
     MSISDN req \<noteq> [] \<and> Channel req \<noteq> [] \<and> Narration req \<noteq> [] \<and> TransactionRef req \<noteq> []
     \<and> TransactionDate req \<noteq> [] \<and> CallbackURL req \<noteq> [] \<and> \<not> le_zero (Amount req)
     \<and> Channel req \<in> {''TZ-TIGO-C2B'', ''TZ-AIRTEL-C2B'', ''TZ-HALOTEL-C2B''}"
  by (auto simp: validateMobileMoneyRequest_def isValidChannel_def GetSupportedChannels_def
        ChannelTZTigoC2B_def ChannelTZAirtelC2B_def ChannelTZHalotelC2B_def)

lemma validateWalletToMobileRequest_iff:
  "validateWalletToMobileRequest c req = None \<longleftrightarrow>
     w_CountryCode req = ''TZ'' \<and> w_CurrencyCode req = ''TZS''
     \<and> w_ServiceCode req \<in> {''TZ-TIGO-B2C'', ''TZ-AIRTEL-B2C'', ''TZ-BANK-B2C''}
     \<and> w_RecipientNames req \<noteq> [] \<and> w_AccountNo req \<noteq> [] \<and> \<not> le_zero (w_Amount req)
     \<and> w_MSISDN req \<noteq> [] \<and> w_Narration req \<noteq> [] \<and> w_TransactionRef req \<noteq> []
     \<and> w_TransactionDate req \<noteq> [] \<and> w_CallbackURL req \<noteq> []"
  by (auto simp: validateWalletToMobileRequest_def isValidService_def GetSupportedServices_def
        ServiceTZTigoB2C_def ServiceTZAirtelB2C_def ServiceTZBankB2C_def)

text \<open>
  Claim C4 says that collection-request validation accepts exactly when the six strings
  are non-empty, the channel is supported and the amount is strictly greater than 0. The
  code rejects when \<^verbatim>\<open>Amount <= 0\<close>; for the amount NaN that comparison is false, so a
  request that is well-formed but for a NaN amount is accepted although its amount is not
  greater than 0. (\<^verbatim>\<open>CollectFromMobileMoney\<close> then fails while encoding the request, with
  an encoding error and not a validation error; nothing is sent.)
\<close>

theorem validateMobileMoneyRequest_accepts_NaN:
  "validateMobileMoneyRequest example_client (example_collection NaN) = None
   \<and> gt_zero (Amount (example_collection NaN)) = False
   \<and> CollectFromMobileMoney (example_world 200 ''{\"statusCode\":\"PENDING_ACK\"}'') example_client Context
        (example_collection NaN)
      = ((None, Some (MarshalFailed UnsupportedValueError)), [])"
proof -
  have v: "validateMobileMoneyRequest example_client (example_collection NaN) = None"
    by (simp add: validateMobileMoneyRequest_iff example_collection_def)
  have g: "gt_zero (Amount (example_collection NaN)) = False"
    by (simp add: example_collection_def)
  have m: "Marshal_CollectionRequest f (example_collection NaN) = Inl UnsupportedValueError" for f
    by (simp add: Marshal_CollectionRequest_def encode_float_def example_collection_def)
  show ?thesis
    by (simp add: CollectFromMobileMoney_def v g makeRequest_def m)
qed

text \<open>
  Claim C5 says that disbursement-request validation accepts only when, among the other
  conditions, the amount is strictly positive. As for C4, the check is \<^verbatim>\<open>Amount <= 0\<close>,
  and a request that is well-formed but for a NaN amount is accepted.
\<close>

theorem validateWalletToMobileRequest_accepts_NaN:
  "validateWalletToMobileRequest example_client ((example_payout ''TZ-TIGO-B2C'')\<lparr>w_Amount := NaN\<rparr>) = None
   \<and> gt_zero (w_Amount ((example_payout ''TZ-TIGO-B2C'')\<lparr>w_Amount := NaN\<rparr>)) = False
   \<and> PayWalletToMobile (example_world 200 ''{\"statusCode\":\"PENDING_ACK\"}'') example_client Context
        ((example_payout ''TZ-TIGO-B2C'')\<lparr>w_Amount := NaN\<rparr>)
      = ((None, Some (MarshalFailed UnsupportedValueError)), [])"
proof -
  let ?r = "(example_payout ''TZ-TIGO-B2C'')\<lparr>w_Amount := NaN\<rparr>"
  have v: "validateWalletToMobileRequest example_client ?r = None"
    by (simp add: validateWalletToMobileRequest_iff example_payout_def)
  have g: "gt_zero (w_Amount ?r) = False"
    by simp
  have m: "Marshal_WalletToMobileRequest f ?r = Inl UnsupportedValueError" for f
    by (simp add: Marshal_WalletToMobileRequest_def encode_float_def)
  show ?thesis
    by (simp add: PayWalletToMobile_def v g makeRequest_def m)
qed

subsection \<open>Classification of replies by the transport adapter\<close>

text \<open>
  When \<^verbatim>\<open>makeRequest\<close> hands a request to the HTTP client and the network answers it with
  a status and a body, the result is determined by the status and the body alone.
\<close>

lemma makeRequest_reply:
  assumes "snd (makeRequest w c cx meth endpoint pl) = [req]"
      and "network w req = Reply status respBody"
  shows "fst (makeRequest w c cx meth endpoint pl) =
     (if status \<noteq> StatusOK then
        (case Unmarshal_APIError respBody of
           Inr apiErr \<Rightarrow>
             if a_StatusCode apiErr \<noteq> 0 then (None, Some (APIErr apiErr))
             else (None, Some (UnexpectedStatus status respBody))
         | Inl _ \<Rightarrow> (None, Some (UnexpectedStatus status respBody)))
      else
        (case Unmarshal_Response respBody of
           Inl err \<Rightarrow> (None, Some (UnmarshalFailed err))
         | Inr response \<Rightarrow>
             if r_StatusCode response = StatusPaymentRejected
                \<or> r_StatusCode response = StatusGenericError
             then (Some response,
                   Some (BusinessErr \<lparr>e_StatusCode = r_StatusCode response,
                                     e_Message = ''Request failed'', e_Details = []\<rparr>))
             else (Some response, None)))"
proof -
  obtain body where m: "(case pl of None \<Rightarrow> Inr None
            | Some p \<Rightarrow> (case Marshal (FormatFloat w) p of
                          Inl err \<Rightarrow> Inl err
                        | Inr jsonData \<Rightarrow> Inr (Some jsonData))) = Inr body"
    using assms(1) by (cases "(case pl of None \<Rightarrow> Inr None
            | Some p \<Rightarrow> (case Marshal (FormatFloat w) p of
                          Inl err \<Rightarrow> (Inl err :: marshal_error + string option)
                        | Inr jsonData \<Rightarrow> Inr (Some jsonData)))") (auto simp: makeRequest_def)
  obtain req0 where r0: "NewRequestWithContext cx meth (baseURL c @ endpoint) body = Some req0"
    using assms(1) m by (cases "NewRequestWithContext cx meth (baseURL c @ endpoint) body")
      (auto simp: makeRequest_def)
  let ?req = "req0\<lparr>rq_headers :=
                            [(''Content-Type'', ''application/json''),
                             (''x-account-id'', accountID c),
                             (''x-secret-key'', secretKey c),
                             (''x-request-id'', generateRequestID w)]\<rparr>"
  have "snd (makeRequest w c cx meth endpoint pl) = [?req]"
    using m r0 by (simp add: makeRequest_def Let_def split: net_result.split sum.split)
  with assms(1) have "req = ?req" by simp
  with assms(2) have "network w ?req = Reply status respBody" by simp
  then show ?thesis
    using m r0 by (simp add: makeRequest_def Let_def split: sum.split)
qed

lemma makeRequest_status_request:
  "snd (makeRequest w c Context meth endpoint (Some (StatusPayload r)))
     = [\<lparr>rq_method = meth, rq_url = baseURL c @ endpoint,
         rq_headers = [(''Content-Type'', ''application/json''),
                       (''x-account-id'', accountID c),
                       (''x-secret-key'', secretKey c),
                       (''x-request-id'', generateRequestID w)],
         rq_body = Some (Marshal_PaymentStatusRequest r)\<rparr>]"
  by (simp add: makeRequest_def NewRequestWithContext_def Let_def
        split: net_result.split sum.split)

lemma example_world_network: "network (example_world status body) req = Reply status body"
  by (simp add: example_world_def)

lemma Unmarshal_Response_rejected:
  "Unmarshal_Response body_rejected
     = Inr \<lparr>r_StatusCode = ''PAYMENT_REJECTED'', r_TransactionRef = ''TXN_1'', r_TransactionID = ''T-9''\<rparr>"
  unfolding body_rejected_def by code_simp

lemma Unmarshal_APIError_rejected: "Unmarshal_APIError body_rejected = Inl UnmarshalTypeError"
  unfolding body_rejected_def by code_simp

lemma Unmarshal_Response_pending:
  "Unmarshal_Response body_pending
     = Inr \<lparr>r_StatusCode = ''PENDING_ACK'', r_TransactionRef = ''TXN_1'', r_TransactionID = ''T-9''\<rparr>"
  unfolding body_pending_def by code_simp

lemma Unmarshal_APIError_pending: "Unmarshal_APIError body_pending = Inl UnmarshalTypeError"
  unfolding body_pending_def by code_simp

lemma Unmarshal_APIError_credentials:
  "Unmarshal_APIError body_credentials
     = Inr \<lparr>a_StatusCode = 401, a_Reason = ''INVALID_CREDENTIALS'', a_Message = [], a_Details = None\<rparr>"
  unfolding body_credentials_def by code_simp

lemma Unmarshal_APIError_html: "Unmarshal_APIError body_html = Inl SyntaxError"
  unfolding body_html_def by code_simp

lemma Unmarshal_Response_html: "Unmarshal_Response body_html = Inl SyntaxError"
  unfolding body_html_def by code_simp

text \<open>
  Claim C1, amended. For every reply with transport status 200 whose body decodes into
  the response shape: if the decoded status code is \<^verbatim>\<open>PAYMENT_REJECTED\<close> or
  \<^verbatim>\<open>GENERIC_ERROR\<close>, the operation returns a business error carrying that status code
  (together with the decoded response); for any other decoded status code it returns the
  decoded response with no error.
\<close>

theorem makeRequest_business_error:
  assumes "snd (makeRequest w c cx meth endpoint pl) = [req]"
      and "network w req = Reply 200 respBody"
      and "Unmarshal_Response respBody = Inr r"
  shows "fst (makeRequest w c cx meth endpoint pl) =
           (if r_StatusCode r = ''PAYMENT_REJECTED'' \<or> r_StatusCode r = ''GENERIC_ERROR''
            then (Some r, Some (BusinessErr \<lparr>e_StatusCode = r_StatusCode r,
                                              e_Message = ''Request failed'', e_Details = []\<rparr>))
            else (Some r, None))"
  using makeRequest_reply[OF assms(1) assms(2)] assms(3)
  by (simp add: StatusOK_def StatusPaymentRejected_def StatusGenericError_def)

text \<open>A rejected payment and a pending one, both with status 200.\<close>

theorem makeRequest_business_error_witness:
  "fst (makeRequest (example_world 200 body_rejected) example_client Context MethodPost
          EndpointCollectionStatus (Some (StatusPayload example_status_request)))
     = (Some \<lparr>r_StatusCode = ''PAYMENT_REJECTED'', r_TransactionRef = ''TXN_1'', r_TransactionID = ''T-9''\<rparr>,
        Some (BusinessErr \<lparr>e_StatusCode = ''PAYMENT_REJECTED'', e_Message = ''Request failed'',
                           e_Details = []\<rparr>))
   \<and> fst (makeRequest (example_world 200 body_pending) example_client Context MethodPost
          EndpointCollectionStatus (Some (StatusPayload example_status_request)))
     = (Some \<lparr>r_StatusCode = ''PENDING_ACK'', r_TransactionRef = ''TXN_1'', r_TransactionID = ''T-9''\<rparr>,
        None)"
  using makeRequest_business_error[OF makeRequest_status_request example_world_network
          Unmarshal_Response_rejected, of example_client MethodPost EndpointCollectionStatus
          example_status_request]
        makeRequest_business_error[OF makeRequest_status_request example_world_network
          Unmarshal_Response_pending, of example_client MethodPost EndpointCollectionStatus
          example_status_request]
  by simp

text \<open>
  Claim C1 as stated, for every 2xx status, fails: the adapter compares the status with
  200 (\<^verbatim>\<open>http.StatusOK\<close>). A reply with status 201 whose body decodes into a response
  with status code \<^verbatim>\<open>PAYMENT_REJECTED\<close> is not surfaced as a business error but as an
  unexpected-status error carrying the raw status and body.
\<close>

theorem makeRequest_business_error_counterexample:
  "(200::int) \<le> 201 \<and> (201::int) < 300
   \<and> Unmarshal_Response body_rejected
       = Inr \<lparr>r_StatusCode = ''PAYMENT_REJECTED'', r_TransactionRef = ''TXN_1'', r_TransactionID = ''T-9''\<rparr>
   \<and> fst (makeRequest (example_world 201 body_rejected) example_client Context MethodPost
            EndpointCollectionStatus (Some (StatusPayload example_status_request)))
       = (None, Some (UnexpectedStatus 201 body_rejected))"
  using makeRequest_reply[OF makeRequest_status_request example_world_network,
          of 201 body_rejected example_client MethodPost EndpointCollectionStatus
             example_status_request]
  by (simp add: Unmarshal_Response_rejected Unmarshal_APIError_rejected StatusOK_def)

text \<open>
  Claim C3, amended. A transport status other than 200 is surfaced as the \<^verbatim>\<open>APIError\<close>
  decoded from the body when the body decodes into the error envelope with a non-zero
  status code, and otherwise as an error carrying the raw status and body. With status
  200 the body is decoded into the response shape, and a decode error is surfaced when
  decoding fails.
\<close>

theorem makeRequest_classifies_reply:
  assumes "snd (makeRequest w c cx meth endpoint pl) = [req]"
      and "network w req = Reply status respBody"
  shows "(status \<noteq> 200 \<and> Unmarshal_APIError respBody = Inr e \<and> a_StatusCode e \<noteq> 0 \<longrightarrow>
            fst (makeRequest w c cx meth endpoint pl) = (None, Some (APIErr e)))
       \<and> (status \<noteq> 200 \<and> (\<forall>e'. Unmarshal_APIError respBody = Inr e' \<longrightarrow> a_StatusCode e' = 0) \<longrightarrow>
            fst (makeRequest w c cx meth endpoint pl)
              = (None, Some (UnexpectedStatus status respBody)))
       \<and> (status = 200 \<and> Unmarshal_Response respBody = Inl err \<longrightarrow>
            fst (makeRequest w c cx meth endpoint pl) = (None, Some (UnmarshalFailed err)))
       \<and> (status = 200 \<and> Unmarshal_Response respBody = Inr r \<longrightarrow>
            fst (fst (makeRequest w c cx meth endpoint pl)) = Some r)"
  using makeRequest_reply[OF assms]
  by (auto simp: StatusOK_def split: sum.splits)

text \<open>
  Status 401 with the body \<^verbatim>\<open>{"statusCode":401,"reason":"INVALID_CREDENTIALS"}\<close>, status
  502 with a body that is not JSON, and status 200 with a body that is not JSON and with
  a pending response.
\<close>

theorem makeRequest_classifies_reply_witness:
  "fst (makeRequest (example_world 401 body_credentials) example_client Context MethodPost
          EndpointCollectionStatus (Some (StatusPayload example_status_request)))
     = (None, Some (APIErr \<lparr>a_StatusCode = 401, a_Reason = ''INVALID_CREDENTIALS'', a_Message = [],
                            a_Details = None\<rparr>))
   \<and> fst (makeRequest (example_world 502 body_html) example_client Context MethodPost
          EndpointCollectionStatus (Some (StatusPayload example_status_request)))
     = (None, Some (UnexpectedStatus 502 body_html))
   \<and> fst (makeRequest (example_world 200 body_html) example_client Context MethodPost
          EndpointCollectionStatus (Some (StatusPayload example_status_request)))
     = (None, Some (UnmarshalFailed SyntaxError))
   \<and> fst (fst (makeRequest (example_world 200 body_pending) example_client Context MethodPost
          EndpointCollectionStatus (Some (StatusPayload example_status_request))))
     = Some \<lparr>r_StatusCode = ''PENDING_ACK'', r_TransactionRef = ''TXN_1'', r_TransactionID = ''T-9''\<rparr>"
proof -
  let ?e = "\<lparr>a_StatusCode = 401, a_Reason = ''INVALID_CREDENTIALS'', a_Message = [], a_Details = None\<rparr>"
  let ?r = "\<lparr>r_StatusCode = ''PENDING_ACK'', r_TransactionRef = ''TXN_1'', r_TransactionID = ''T-9''\<rparr>"
  note inst = makeRequest_classifies_reply[OF makeRequest_status_request example_world_network,
      of _ _ _ example_client MethodPost EndpointCollectionStatus example_status_request]
  have h1: "(401::int) \<noteq> 200 \<and> Unmarshal_APIError body_credentials = Inr ?e \<and> a_StatusCode ?e \<noteq> 0"
    by (simp add: Unmarshal_APIError_credentials)
  have h2: "(502::int) \<noteq> 200 \<and> (\<forall>e'. Unmarshal_APIError body_html = Inr e' \<longrightarrow> a_StatusCode e' = 0)"
    by (simp add: Unmarshal_APIError_html)
  have h3: "(200::int) = 200 \<and> Unmarshal_Response body_html = Inl SyntaxError"
    by (simp add: Unmarshal_Response_html)
  have h4: "(200::int) = 200 \<and> Unmarshal_Response body_pending = Inr ?r"
    by (simp add: Unmarshal_Response_pending)
  from inst[of 401 body_credentials ?e] h1
  have a: "fst (makeRequest (example_world 401 body_credentials) example_client Context MethodPost
             EndpointCollectionStatus (Some (StatusPayload example_status_request)))
           = (None, Some (APIErr ?e))"
    by blast
  from inst[of 502 body_html] h2
  have b: "fst (makeRequest (example_world 502 body_html) example_client Context MethodPost
             EndpointCollectionStatus (Some (StatusPayload example_status_request)))
           = (None, Some (UnexpectedStatus 502 body_html))"
    by blast
  from inst[of 200 body_html _ SyntaxError] h3
  have c: "fst (makeRequest (example_world 200 body_html) example_client Context MethodPost
             EndpointCollectionStatus (Some (StatusPayload example_status_request)))
           = (None, Some (UnmarshalFailed SyntaxError))"
    by blast
  from inst[of 200 body_pending _ _ ?r] h4
  have d: "fst (fst (makeRequest (example_world 200 body_pending) example_client Context MethodPost
             EndpointCollectionStatus (Some (StatusPayload example_status_request))))
           = Some ?r"
    by blast
  from a b c d show ?thesis by blast
qed

text \<open>
  Claim C3 as stated fails for the 2xx statuses other than 200: a reply with status 202
  whose body decodes into the response shape is not decoded into it, but surfaced as an
  unexpected-status error carrying the raw status and body.
\<close>

theorem makeRequest_classifies_reply_counterexample:
  "(200::int) \<le> 202 \<and> (202::int) < 300
   \<and> Unmarshal_Response body_pending
       = Inr \<lparr>r_StatusCode = ''PENDING_ACK'', r_TransactionRef = ''TXN_1'', r_TransactionID = ''T-9''\<rparr>
   \<and> makeRequest (example_world 202 body_pending) example_client Context MethodPost
        EndpointCollectionStatus (Some (StatusPayload example_status_request))
       = ((None, Some (UnexpectedStatus 202 body_pending)),
          [\<lparr>rq_method = MethodPost, rq_url = baseURL example_client @ EndpointCollectionStatus,
            rq_headers = [(''Content-Type'', ''application/json''),
                          (''x-account-id'', accountID example_client),
                          (''x-secret-key'', secretKey example_client),
                          (''x-request-id'', generateRequestID (example_world 202 body_pending))],
            rq_body = Some (Marshal_PaymentStatusRequest example_status_request)\<rparr>])"
  using makeRequest_reply[OF makeRequest_status_request example_world_network,
          of 202 body_pending example_client MethodPost EndpointCollectionStatus
             example_status_request]
        makeRequest_status_request[of "example_world 202 body_pending" example_client MethodPost
             EndpointCollectionStatus example_status_request]
  by (simp add: Unmarshal_Response_pending Unmarshal_APIError_pending StatusOK_def prod_eq_iff)

subsection \<open>The tolerant numeric decoder\<close>

text \<open>
  \<^verbatim>\<open>UnmarshalJSON\<close> never returns an error; the tokens \<^verbatim>\<open>null\<close> and \<^verbatim>\<open>""\<close> give an absent
  value; a bare number literal gives the number \<^verbatim>\<open>ParseFloat\<close> reads from it; a string
  whose content is a number literal gives the number read from the content.
\<close>

lemma UnmarshalJSON_never_errors: "snd (UnmarshalJSON pf n b) = None"
  by (simp add: UnmarshalJSON_def split: sum.split prod.split option.split)

lemma parse_json_token:
  assumes "\<not> is_space c" and "next_token (c # cs) = Some (t, [])"
  shows "parse_json (c # cs) = run (BeginValue, []) [t]"
  using assms by (simp add: parse_json_def)

lemma scan_number_head:
  assumes "scan_number s = Some (lit, rest)"
  shows "\<exists>c cs. s = c # cs \<and> (c = CHR ''-'' \<or> is_digit c)"
proof (cases s)
  case Nil
  with assms show ?thesis by (simp add: scan_number_def scan_int_def)
next
  case (Cons c cs)
  show ?thesis
  proof (cases "c = CHR ''-''")
    case True
    with Cons show ?thesis by simp
  next
    case False
    with assms Cons have "scan_int (c # cs) \<noteq> None"
      by (auto simp: scan_number_def split: option.splits)
    then have "is_digit c"
      by (auto simp: scan_int_def is_digit_def split: if_splits)
    with Cons show ?thesis by simp
  qed
qed

lemma digit_not_special:
  assumes "c = CHR ''-'' \<or> is_digit c"
  shows "\<not> is_space c" "c \<noteq> CHR ''{''" "c \<noteq> CHR ''}''" "c \<noteq> CHR ''[''" "c \<noteq> CHR '']''"
        "c \<noteq> CHR '':''" "c \<noteq> CHR '',''" "c \<noteq> quote" "c \<noteq> CHR ''n''"
  using assms by (auto simp: is_digit_def is_space_def quote_def)

lemma parse_json_number:
  assumes "scan_number b = Some (b, [])"
  shows "parse_json b = Some (JNumber b)"
proof -
  from scan_number_head[OF assms] obtain c cs where b: "b = c # cs"
    and c: "c = CHR ''-'' \<or> is_digit c" by blast
  have "next_token (c # cs) = Some (TNumber b, [])"
    using assms b c digit_not_special[OF c] by (simp add: next_token_def)
  from parse_json_token[OF digit_not_special(1)[OF c] this] b show ?thesis by simp
qed

lemma parse_json_string:
  assumes "scan_string (raw @ [quote]) = Some (raw, [])" and "unquote raw = Some s"
  shows "parse_json (quote # raw @ [quote]) = Some (JString s)"
proof -
  have q: "\<not> is_space quote" "quote \<noteq> CHR ''{''" "quote \<noteq> CHR ''}''" "quote \<noteq> CHR ''[''"
     "quote \<noteq> CHR '']''" "quote \<noteq> CHR '':''" "quote \<noteq> CHR '',''"
    by (simp_all add: quote_def is_space_def)
  have "next_token (quote # raw @ [quote]) = Some (TString s, [])"
    using assms q by (simp add: next_token_def)
  from parse_json_token[OF q(1) this] show ?thesis by simp
qed

lemma UnmarshalJSON_null:
  "UnmarshalJSON pf n ''null'' = (n\<lparr>Value := None\<rparr>, None)"
  "UnmarshalJSON pf n ''\"\"'' = (n\<lparr>Value := None\<rparr>, None)"
  by (simp_all add: UnmarshalJSON_def quote_def)

lemma UnmarshalJSON_number:
  assumes "scan_number b = Some (b, [])" and "pf b = Some v"
  shows "UnmarshalJSON pf n b = (n\<lparr>Value := Some v\<rparr>, None)"
proof -
  from scan_number_head[OF assms(1)] obtain c cs where b: "b = c # cs"
    and c: "c = CHR ''-'' \<or> is_digit c" by blast
  have ne: "\<not> (b = ''null'' \<or> b = [quote, quote])"
    using b digit_not_special[OF c] by auto
  have f: "Unmarshal_float64 pf b = Inr v"
    using parse_json_number[OF assms(1)] assms(2) by (simp add: Unmarshal_float64_def)
  show ?thesis
    unfolding UnmarshalJSON_def
    by (subst if_not_P[OF ne]) (simp add: f)
qed

lemma UnmarshalJSON_string_number:
  assumes "scan_string (raw @ [quote]) = Some (raw, [])" and "unquote raw = Some s"
      and "scan_number s = Some (s, [])" and "pf s = Some v"
  shows "UnmarshalJSON pf n (quote # raw @ [quote]) = (n\<lparr>Value := Some v\<rparr>, None)"
proof -
  let ?b = "quote # raw @ [quote]"
  have s: "s \<noteq> []" using assms(3) scan_number_head by fastforce
  then have raw: "raw \<noteq> []" using assms(2) by auto
  have ne: "\<not> (?b = ''null'' \<or> ?b = [quote, quote])"
    using raw by (auto simp: quote_def)
  have f: "Unmarshal_float64 pf ?b = Inl UnmarshalTypeError"
    using parse_json_string[OF assms(1,2)] by (simp add: Unmarshal_float64_def)
  have g: "Unmarshal_string ?b = Inr s"
    using parse_json_string[OF assms(1,2)] by (simp add: Unmarshal_string_def)
  have h: "Unmarshal_float64 pf s = Inr v"
    using parse_json_number[OF assms(3)] assms(4) by (simp add: Unmarshal_float64_def)
  show ?thesis
    unfolding UnmarshalJSON_def
    by (subst if_not_P[OF ne]) (simp add: f g h s)
qed

text \<open>
  The result of \<^verbatim>\<open>UnmarshalJSON\<close> in terms of the value the bytes denote: besides numbers,
  a \<^verbatim>\<open>null\<close> that is not the exact token (padded with white space, or the content of
  a string) makes \<^verbatim>\<open>json.Unmarshal\<close> succeed without storing anything, and the decoder
  then holds the zero it started from.
\<close>

lemma UnmarshalJSON_parse:
  "UnmarshalJSON pf n b =
     (n\<lparr>Value :=
         (if b = ''null'' \<or> b = [quote, quote] then None
          else case parse_json b of
                 Some (JNumber lit) \<Rightarrow> pf lit
               | Some JNull \<Rightarrow> Some (Finite 0)
               | Some (JString s) \<Rightarrow>
                   (if s = [] then None
                    else case parse_json s of
                           Some (JNumber lit) \<Rightarrow> pf lit
                         | Some JNull \<Rightarrow> Some (Finite 0)
                         | _ \<Rightarrow> None)
               | _ \<Rightarrow> None)\<rparr>, None)"
  by (simp add: UnmarshalJSON_def Unmarshal_float64_def Unmarshal_string_def
        parseFloatFromString_def split: option.split json.split)

lemma parse_json_quoted_null: "parse_json ''\"null\"'' = Some (JString ''null'')"
  by code_simp

lemma parse_json_null: "parse_json ''null'' = Some JNull"
  by code_simp

text \<open>
  Claim C2 says that the decoder produces an absent value for every input that is not
  a number, a numeric string, \<^verbatim>\<open>null\<close> or \<^verbatim>\<open>""\<close>, non-numeric strings included. The JSON
  string \<^verbatim>\<open>"null"\<close> is not numeric, yet the decoder produces the present value 0 for it:
  \<^verbatim>\<open>json.Unmarshal\<close> of the content \<^verbatim>\<open>null\<close> into a float64 is no error and stores nothing.
\<close>

theorem UnmarshalJSON_quoted_null:
  "UnmarshalJSON pf n ''\"null\"'' = (n\<lparr>Value := Some (Finite 0)\<rparr>, None)"
  by (simp add: UnmarshalJSON_def Unmarshal_float64_def Unmarshal_string_def
        parse_json_quoted_null parse_json_null quote_def)

end
